theory Spec2Isabelle
  imports Main "HOL-Library.Sublist"
begin

section \<open>Data model\<close>

text \<open>
  A turn of the conversation is the Python dict \<^verbatim>\<open>{"role": ..., "content": ...}\<close>
  that both programs append to the module-level list \<^verbatim>\<open>chat_history\<close>; the same shape
  is used for the messages of a chat-completion request, where the role can also be
  \<^verbatim>\<open>"system"\<close>, and for the memory of a Gemini chat session.
\<close>

record turn =
  role :: string
  content :: string

definition user_turn :: "string \<Rightarrow> turn" where
  "user_turn text = \<lparr>role = ''user'', content = text\<rparr>"

definition assistant_turn :: "string \<Rightarrow> turn" where
  "assistant_turn text = \<lparr>role = ''assistant'', content = text\<rparr>"

definition system_turn :: "string \<Rightarrow> turn" where
  "system_turn text = \<lparr>role = ''system'', content = text\<rparr>"

text \<open>
  The two \<^verbatim>\<open>AsyncOpenAI\<close> objects the programs create: the one for the OpenAI endpoint
  and the one whose \<^verbatim>\<open>base_url\<close> is OpenRouter. A module-level client variable holds
  such an object, or \<^verbatim>\<open>None\<close> when its constructor raised.
\<close>

datatype client = OpenAI | OpenRouter

text \<open>
  Every call that leaves the process is a request. \<open>SendMessage h t\<close> is
  \<^verbatim>\<open>chat.send_message(t)\<close> on a Gemini chat session whose memory is \<open>h\<close>;
  \<open>ChatCompletion c m ms\<close> is \<^verbatim>\<open>c.chat.completions.create(model=m, messages=ms)\<close>.
\<close>

datatype request =
    SendMessage "turn list" string
  | ChatCompletion client string "turn list"

text \<open>
  What a request that does not raise gives back. The programs read the text of the
  response object afterwards (\<^verbatim>\<open>response.text\<close>,
  \<^verbatim>\<open>response.choices[0].message.content\<close>), and that read can raise by itself: a Gemini
  response without a text part is a response all the same, and the session has taken it
  into its memory by then. \<open>Text t\<close> is a response whose text is \<open>t\<close>; \<open>NoText msg\<close> is a
  response whose text cannot be read, \<open>msg\<close> being the \<^verbatim>\<open>str(e)\<close> of the exception that
  the read raises.
\<close>

datatype reply = Text string | NoText string

text \<open>The text a session keeps of a reply: nothing of one that has no text.\<close>

fun reply_text :: "reply \<Rightarrow> string" where
  "reply_text (Text t) = t"
| "reply_text (NoText msg) = []"

text \<open>
  The trace of a run: a request leaves the process, and later its outcome arrives. A
  request is in flight between the two.
\<close>

datatype event = Started request | Finished request

text \<open>
  What the programs do not contain is a parameter of the model: \<open>respond log r\<close> is the
  outcome of request \<open>r\<close>, made after the requests \<open>log\<close>. \<open>Inr reply\<close> is a response,
  \<open>Inl msg\<close> an exception whose \<^verbatim>\<open>str(e)\<close> is \<open>msg\<close>. A call that blocks
  (\<^verbatim>\<open>chat.send_message\<close>) is taken to come back; a request that is awaited may stay
  without outcome for ever, which the completion order of a fan-out says (see \<open>gather\<close>).
\<close>

record env =
  respond :: "request list \<Rightarrow> request \<Rightarrow> string + reply"

text \<open>
  The mutable state of a run: the module-level variables (the three clients, set once
  when the module is loaded, and \<^verbatim>\<open>chat_history\<close>), the function attribute that holds
  the lazily created Gemini chat session (\<^verbatim>\<open>get_gemini_response.chat\<close> in
  frankenthought-chat.py, \<^verbatim>\<open>chat_with_model.gemini_chat\<close> in multi-chat.py; \<open>None\<close> when
  the attribute is absent, otherwise the session's own memory), the requests made so far
  with the trace of their starts and ends, and the log file \<^verbatim>\<open>chat_responses.json\<close>:
  its text (\<open>None\<close> when it does not exist or cannot be read as text) and whether it can
  be opened for writing.
\<close>

record state =
  gemini_model :: bool
  openai_client :: "client option"
  openrouter_client :: "client option"
  chat_history :: "turn list"
  gemini_chat :: "turn list option"
  net_log :: "request list"
  events :: "event list"
  chat_log_file :: "string option"
  fs_writable :: bool

section \<open>JSON text\<close>

text \<open>
  The log file is written by \<^verbatim>\<open>json.dump(chat_log, f, indent=2, ensure_ascii=False)\<close> and
  read by \<^verbatim>\<open>json.load(f)\<close>, both of Python's standard library, on a file opened as UTF-8
  text. A string of the model is the UTF-8 encoding of the Python text it stands for, and
  a file holds such bytes; the characters that JSON treats specially are ASCII, so the
  printer and the parser work on the bytes.
\<close>

subsection \<open>Strings and numbers\<close>

fun digit :: "nat \<Rightarrow> char" where
  "digit n = char_of (48 + n)"

function str_nat :: "nat \<Rightarrow> string" where
  "str_nat n = (if n < 10 then [digit n] else str_nat (n div 10) @ [digit (n mod 10)])"
  by pat_completeness auto
termination
  by (relation "measure id") auto

declare str_nat.simps [simp del]

text \<open>\<^verbatim>\<open>str(i)\<close> of an integer.\<close>

definition str_int :: "int \<Rightarrow> string" where
  "str_int i = (if i < 0 then ''-'' @ str_nat (nat (- i)) else str_nat (nat i))"

definition hex_digit :: "nat \<Rightarrow> char" where
  "hex_digit n = char_of (if n < 10 then 48 + n else 87 + n)"

text \<open>
  The encoder's table for \<^verbatim>\<open>ensure_ascii=False\<close>: the quote, the backslash and the control
  characters are escaped, the five common ones by a letter, the others as \<^verbatim>\<open>\u00XX\<close>;
  every other character stands for itself.
\<close>

definition escape_char :: "char \<Rightarrow> string" where
  "escape_char c =
     (if c = CHR 0x22 then [CHR 0x5C, CHR 0x22]
      else if c = CHR 0x5C then [CHR 0x5C, CHR 0x5C]
      else if c = CHR 0x0A then [CHR 0x5C, CHR ''n'']
      else if c = CHR 0x0D then [CHR 0x5C, CHR ''r'']
      else if c = CHR 0x09 then [CHR 0x5C, CHR ''t'']
      else if c = CHR 0x08 then [CHR 0x5C, CHR ''b'']
      else if c = CHR 0x0C then [CHR 0x5C, CHR ''f'']
      else if (of_char c :: nat) < 32 then
        [CHR 0x5C, CHR ''u'', CHR ''0'', CHR ''0'',
         hex_digit (of_char c div 16), hex_digit (of_char c mod 16)]
      else [c])"

definition json_string :: "string \<Rightarrow> string" where
  "json_string s = CHR 0x22 # concat (map escape_char s) @ [CHR 0x22]"

subsection \<open>The printer\<close>

text \<open>
  The values \<^verbatim>\<open>json.load\<close> returns and \<^verbatim>\<open>json.dump\<close> is given. An object is a Python
  dict: its keys in insertion order, no key twice. A number with a fraction or an
  exponent, and \<^verbatim>\<open>NaN\<close>, \<^verbatim>\<open>Infinity\<close>, \<^verbatim>\<open>-Infinity\<close>, is kept as the literal that
  denotes it (Python keeps the float it denotes and prints that float's own literal).
\<close>

datatype json =
    JNull
  | JBool bool
  | JNum int
  | JFloat string
  | JStr string
  | JArr "json list"
  | JObj "(string \<times> json) list"

fun join :: "string \<Rightarrow> string list \<Rightarrow> string" where
  "join sep [] = []"
| "join sep [x] = x"
| "join sep (x # y # ys) = x @ sep @ join sep (y # ys)"

text \<open>A line break and the indentation of a nesting level, two spaces per level.\<close>

definition newline_indent :: "nat \<Rightarrow> string" where
  "newline_indent level = CHR 0x0A # replicate (2 * level) CHR '' ''"

text \<open>
  The text of a value at a nesting level, with \<^verbatim>\<open>indent=2\<close> and the separators
  \<^verbatim>\<open>","\<close> and \<^verbatim>\<open>": "\<close> that go with an indent: an empty list or dict on one line, every
  item of a non-empty one on a line of its own.
\<close>

fun dump :: "nat \<Rightarrow> json \<Rightarrow> string" where
  "dump level JNull = ''null''"
| "dump level (JBool b) = (if b then ''true'' else ''false'')"
| "dump level (JNum n) = str_int n"
| "dump level (JFloat literal) = literal"
| "dump level (JStr s) = json_string s"
| "dump level (JArr vs) =
     (if vs = [] then ''[]''
      else ''['' @ newline_indent (Suc level)
           @ join ('','' @ newline_indent (Suc level)) (map (dump (Suc level)) vs)
           @ newline_indent level @ '']'')"
| "dump level (JObj kvs) =
     (if kvs = [] then ''{}''
      else ''{'' @ newline_indent (Suc level)
           @ join ('','' @ newline_indent (Suc level))
               (map (\<lambda>(k, v). json_string k @ '': '' @ dump (Suc level) v) kvs)
           @ newline_indent level @ ''}'')"

definition json_dumps :: "json \<Rightarrow> string" where
  "json_dumps v = dump 0 v"

subsection \<open>The parser\<close>

definition is_ws :: "char \<Rightarrow> bool" where
  "is_ws c = (c = CHR '' '' \<or> c = CHR 0x09 \<or> c = CHR 0x0A \<or> c = CHR 0x0D)"

definition skip_ws :: "string \<Rightarrow> string" where
  "skip_ws s = dropWhile is_ws s"

definition is_digit :: "char \<Rightarrow> bool" where
  "is_digit c = (48 \<le> (of_char c :: nat) \<and> (of_char c :: nat) \<le> 57)"

definition hex_value :: "char \<Rightarrow> nat option" where
  "hex_value c =
     (let n = (of_char c :: nat) in
      if 48 \<le> n \<and> n \<le> 57 then Some (n - 48)
      else if 97 \<le> n \<and> n \<le> 102 then Some (n - 87)
      else if 65 \<le> n \<and> n \<le> 70 then Some (n - 55)
      else None)"

definition hex4 :: "char \<Rightarrow> char \<Rightarrow> char \<Rightarrow> char \<Rightarrow> nat option" where
  "hex4 a b c d =
     (case (hex_value a, hex_value b, hex_value c, hex_value d) of
        (Some w, Some x, Some y, Some z) \<Rightarrow> Some (((w * 16 + x) * 16 + y) * 16 + z)
      | _ \<Rightarrow> None)"

text \<open>
  The UTF-8 bytes of a code point. A surrogate on its own has none: Python keeps it in
  the text it returns, the model has no string for it (\<open>None\<close>).
\<close>

definition utf8 :: "nat \<Rightarrow> string option" where
  "utf8 cp =
     (if cp < 0x80 then Some [char_of cp]
      else if cp < 0x800 then Some [char_of (0xC0 + cp div 64), char_of (0x80 + cp mod 64)]
      else if 0xD800 \<le> cp \<and> cp \<le> 0xDFFF then None
      else if cp < 0x10000 then
        Some [char_of (0xE0 + cp div 4096), char_of (0x80 + cp div 64 mod 64),
              char_of (0x80 + cp mod 64)]
      else
        Some [char_of (0xF0 + cp div 262144), char_of (0x80 + cp div 4096 mod 64),
              char_of (0x80 + cp div 64 mod 64), char_of (0x80 + cp mod 64)])"

text \<open>The character a one-letter escape stands for.\<close>

definition unescape :: "char \<Rightarrow> char option" where
  "unescape d =
     (if d = CHR 0x22 then Some (CHR 0x22)
      else if d = CHR 0x5C then Some (CHR 0x5C)
      else if d = CHR ''/'' then Some (CHR ''/'')
      else if d = CHR ''b'' then Some (CHR 0x08)
      else if d = CHR ''f'' then Some (CHR 0x0C)
      else if d = CHR ''n'' then Some (CHR 0x0A)
      else if d = CHR ''r'' then Some (CHR 0x0D)
      else if d = CHR ''t'' then Some (CHR 0x09)
      else None)"

definition prepend :: "string \<Rightarrow> (string \<times> string) option \<Rightarrow> (string \<times> string) option" where
  "prepend bytes r = map_option (\<lambda>(s, rest). (bytes @ s, rest)) r"

text \<open>
  The text of a string after its opening quote, up to the closing quote, with what
  follows. A control character that is not escaped, an unknown escape and the end of the
  input are errors; \<^verbatim>\<open>\uXXXX\<close> gives a code point, two of them a surrogate pair.
\<close>

fun parse_string :: "string \<Rightarrow> (string \<times> string) option" where
  "parse_string [] = None"
| "parse_string (c # cs) =
     (if c = CHR 0x22 then Some ([], cs)
      else if c = CHR 0x5C then
        (case cs of
           [] \<Rightarrow> None
         | d # ds \<Rightarrow>
             if d = CHR ''u'' then
               (case ds of
                  w # x # y # z # rest \<Rightarrow>
                    (case hex4 w x y z of
                       None \<Rightarrow> None
                     | Some hi \<Rightarrow>
                         if 0xD800 \<le> hi \<and> hi \<le> 0xDBFF then
                           (case rest of
                              b # u # w' # x' # y' # z' # rest' \<Rightarrow>
                                if b = CHR 0x5C \<and> u = CHR ''u'' then
                                  (case hex4 w' x' y' z' of
                                     None \<Rightarrow> None
                                   | Some lo \<Rightarrow>
                                       if 0xDC00 \<le> lo \<and> lo \<le> 0xDFFF then
                                         (case utf8 (0x10000 + (hi - 0xD800) * 1024 + (lo - 0xDC00)) of
                                            None \<Rightarrow> None
                                          | Some bytes \<Rightarrow> prepend bytes (parse_string rest'))
                                       else None)
                                else None
                            | _ \<Rightarrow> None)
                         else
                           (case utf8 hi of
                              None \<Rightarrow> None
                            | Some bytes \<Rightarrow> prepend bytes (parse_string rest)))
                | _ \<Rightarrow> None)
             else
               (case unescape d of
                  None \<Rightarrow> None
                | Some x \<Rightarrow> prepend [x] (parse_string ds)))
      else if (of_char c :: nat) < 32 then None
      else prepend [c] (parse_string cs))"

text \<open>
  A number: an optional minus sign, \<^verbatim>\<open>0\<close> or digits that do not start with \<^verbatim>\<open>0\<close>, then
  optionally a fraction and an exponent. Without fraction and exponent it is an integer.
\<close>

definition digits_value :: "string \<Rightarrow> nat" where
  "digits_value ds = foldl (\<lambda>n c. 10 * n + (of_char c - 48)) 0 ds"

definition parse_fraction :: "string \<Rightarrow> string \<times> string" where
  "parse_fraction s =
     (case s of
        c # cs \<Rightarrow>
          if c = CHR ''.'' \<and> takeWhile is_digit cs \<noteq> []
          then (c # takeWhile is_digit cs, dropWhile is_digit cs) else ([], s)
      | [] \<Rightarrow> ([], s))"

definition parse_exponent :: "string \<Rightarrow> string \<times> string" where
  "parse_exponent s =
     (case s of
        c # cs \<Rightarrow>
          if c = CHR ''e'' \<or> c = CHR ''E'' then
            (let sign = (if take 1 cs = ''+'' \<or> take 1 cs = ''-'' then take 1 cs else []);
                 ds = drop (length sign) cs
             in if takeWhile is_digit ds \<noteq> []
                then (c # sign @ takeWhile is_digit ds, dropWhile is_digit ds) else ([], s))
          else ([], s)
      | [] \<Rightarrow> ([], s))"

definition parse_number :: "string \<Rightarrow> (json \<times> string) option" where
  "parse_number s =
     (let sign = (if take 1 s = ''-'' then ''-'' else []);
          s1 = drop (length sign) s;
          ds = (if take 1 s1 = ''0'' then ''0'' else takeWhile is_digit s1)
      in if ds = [] then None
         else
           (let s2 = drop (length ds) s1;
                (frac, s3) = parse_fraction s2;
                (ex, s4) = parse_exponent s3
            in if frac = [] \<and> ex = []
               then Some (JNum (if sign = [] then int (digits_value ds) else - int (digits_value ds)), s4)
               else Some (JFloat (sign @ ds @ frac @ ex), s4)))"

definition starts_with :: "string \<Rightarrow> string \<Rightarrow> bool" where
  "starts_with p s = (take (length p) s = p)"

text \<open>A value that is neither a string, a list nor a dict.\<close>

definition parse_atom :: "string \<Rightarrow> (json \<times> string) option" where
  "parse_atom s =
     (if starts_with ''null'' s then Some (JNull, drop 4 s)
      else if starts_with ''true'' s then Some (JBool True, drop 4 s)
      else if starts_with ''false'' s then Some (JBool False, drop 5 s)
      else
        (case parse_number s of
           Some r \<Rightarrow> Some r
         | None \<Rightarrow>
             if starts_with ''NaN'' s then Some (JFloat ''NaN'', drop 3 s)
             else if starts_with ''Infinity'' s then Some (JFloat ''Infinity'', drop 8 s)
             else if starts_with ''-Infinity'' s then Some (JFloat ''-Infinity'', drop 9 s)
             else None))"

text \<open>
  The dict of a list of pairs, as \<^verbatim>\<open>dict(pairs)\<close> builds it: a key that comes again keeps
  its place and takes the later value.
\<close>

definition upsert :: "(string \<times> json) list \<Rightarrow> string \<times> json \<Rightarrow> (string \<times> json) list" where
  "upsert d kv =
     (if fst kv \<in> fst ` set d
      then map (\<lambda>(k, v). if k = fst kv then (k, snd kv) else (k, v)) d
      else d @ [kv])"

definition dict_of :: "(string \<times> json) list \<Rightarrow> (string \<times> json) list" where
  "dict_of pairs = foldl upsert [] pairs"

text \<open>
  A value, the items of a list after its bracket, and the pairs of a dict after its
  brace, each with the text left over. White space may stand after a bracket or brace,
  around a comma and around a colon. The first argument bounds the number of nested
  calls; \<^verbatim>\<open>json.load\<close> is given the length of the text (Python's own bound is its
  recursion limit).
\<close>

fun parse_value :: "nat \<Rightarrow> string \<Rightarrow> (json \<times> string) option"
  and parse_elements :: "nat \<Rightarrow> string \<Rightarrow> (json list \<times> string) option"
  and parse_members :: "nat \<Rightarrow> string \<Rightarrow> ((string \<times> json) list \<times> string) option" where
  "parse_value 0 s = None"
| "parse_value (Suc n) s =
     (case s of
        [] \<Rightarrow> None
      | c # cs \<Rightarrow>
          if c = CHR 0x22 then map_option (\<lambda>(x, rest). (JStr x, rest)) (parse_string cs)
          else if c = CHR ''['' then
            (case skip_ws cs of
               [] \<Rightarrow> None
             | d # ds \<Rightarrow>
                 if d = CHR '']'' then Some (JArr [], ds)
                 else map_option (\<lambda>(vs, rest). (JArr vs, rest)) (parse_elements n (d # ds)))
          else if c = CHR ''{'' then
            (case skip_ws cs of
               [] \<Rightarrow> None
             | d # ds \<Rightarrow>
                 if d = CHR ''}'' then Some (JObj [], ds)
                 else map_option (\<lambda>(kvs, rest). (JObj (dict_of kvs), rest))
                        (parse_members n (d # ds)))
          else parse_atom s)"
| "parse_elements 0 s = None"
| "parse_elements (Suc n) s =
     (case parse_value n s of
        None \<Rightarrow> None
      | Some (v, rest) \<Rightarrow>
          (case skip_ws rest of
             [] \<Rightarrow> None
           | d # ds \<Rightarrow>
               if d = CHR '']'' then Some ([v], ds)
               else if d = CHR '','' then
                 map_option (\<lambda>(vs, rest'). (v # vs, rest')) (parse_elements n (skip_ws ds))
               else None))"
| "parse_members 0 s = None"
| "parse_members (Suc n) s =
     (case s of
        [] \<Rightarrow> None
      | c # cs \<Rightarrow>
          if c = CHR 0x22 then
            (case parse_string cs of
               None \<Rightarrow> None
             | Some (k, rest) \<Rightarrow>
                 (case skip_ws rest of
                    [] \<Rightarrow> None
                  | d # ds \<Rightarrow>
                      if d = CHR '':'' then
                        (case parse_value n (skip_ws ds) of
                           None \<Rightarrow> None
                         | Some (v, rest') \<Rightarrow>
                             (case skip_ws rest' of
                                [] \<Rightarrow> None
                              | x # xs \<Rightarrow>
                                  if x = CHR ''}'' then Some ([(k, v)], xs)
                                  else if x = CHR '','' then
                                    map_option (\<lambda>(kvs, rest''). ((k, v) # kvs, rest''))
                                      (parse_members n (skip_ws xs))
                                  else None))
                      else None))
          else None)"

text \<open>\<^verbatim>\<open>json.loads\<close>: one value, white space allowed before and after it, nothing else.\<close>

definition json_loads :: "string \<Rightarrow> json option" where
  "json_loads s =
     (case parse_value (length s) (skip_ws s) of
        None \<Rightarrow> None
      | Some (v, rest) \<Rightarrow> if skip_ws rest = [] then Some v else None)"

section \<open>frankenthought-chat.py\<close>

definition MODELS :: "string \<rightharpoonup> string" where
  "MODELS = [''gemini'' \<mapsto> ''gemini-2.0-flash-thinking-exp-01-21'',
             ''o1'' \<mapsto> ''o1'',
             ''deepseek'' \<mapsto> ''deepseek/deepseek-r1'',
             ''qwen'' \<mapsto> ''qwen/qwq-32b-preview'']"

subsection \<open>The chat log\<close>

text \<open>
  \<^verbatim>\<open>load_chat_log\<close>: the value \<^verbatim>\<open>json.load\<close> reads from the file, and the empty list when
  the file is not there or reading it raises. The value need not be a list.
\<close>

definition load_chat_log :: "state \<Rightarrow> json" where
  "load_chat_log st =
     (case chat_log_file st of
        None \<Rightarrow> JArr []
      | Some text \<Rightarrow> (case json_loads text of None \<Rightarrow> JArr [] | Some v \<Rightarrow> v))"

text \<open>
  \<^verbatim>\<open>save_chat_log\<close>: the file opened with mode \<^verbatim>\<open>'w'\<close> holds the text of the value and
  nothing else; when it cannot be opened the exception is printed and the file stays
  as it was.
\<close>

definition save_chat_log :: "json \<Rightarrow> state \<Rightarrow> state" where
  "save_chat_log chat_log st =
     (if fs_writable st then st\<lparr>chat_log_file := Some (json_dumps chat_log)\<rparr> else st)"

subsection \<open>Requests\<close>

text \<open>A request leaves the process; the outcome of a request arrives.\<close>

definition request_made :: "request \<Rightarrow> state \<Rightarrow> state" where
  "request_made r st = st\<lparr>net_log := net_log st @ [r], events := events st @ [Started r]\<rparr>"

definition request_done :: "request \<Rightarrow> state \<Rightarrow> state" where
  "request_done r st = st\<lparr>events := events st @ [Finished r]\<rparr>"

subsection \<open>The Gemini chat session\<close>

text \<open>
  \<^verbatim>\<open>chat.send_message(text)\<close>, an ordinary call (not awaited): nothing else runs between
  the start of its request and the end. The request carries the session's memory. A
  response is added to the memory after the message, whether or not it has a text; an
  exception leaves the memory as it was. The result is the outcome, the session's
  memory and the state.
\<close>

definition send_message ::
  "env \<Rightarrow> turn list \<Rightarrow> string \<Rightarrow> state \<Rightarrow> (string + reply) \<times> turn list \<times> state" where
  "send_message e session text st =
     (let r = SendMessage session text;
          st' = request_done r (request_made r st)
      in (case respond e (net_log st) r of
            Inl err \<Rightarrow> (Inl err, session, st')
          | Inr reply \<Rightarrow>
              (Inr reply,
               session @ [user_turn text, \<lparr>role = ''model'', content = reply_text reply\<rparr>],
               st')))"

text \<open>
  The loop \<^verbatim>\<open>for msg in chat_history: if msg["role"] == "user": chat.send_message(msg["content"])\<close>.
  The responses are dropped without being read; an exception ends the loop (\<open>Some msg\<close>).
\<close>

fun replay :: "env \<Rightarrow> turn list \<Rightarrow> turn list \<Rightarrow> state \<Rightarrow> string option \<times> turn list \<times> state" where
  "replay e [] session st = (None, session, st)"
| "replay e (msg # msgs) session st =
     (if role msg = ''user'' then
        (case send_message e session (content msg) st of
           (Inl err, session', st') \<Rightarrow> (Some err, session', st')
         | (Inr reply, session', st') \<Rightarrow> replay e msgs session' st')
      else replay e msgs session st)"

text \<open>
  The statement \<^verbatim>\<open>if not hasattr(f, 'chat'): f.chat = gemini_model.start_chat(history=[]); for ...\<close>
  of both programs. The attribute is set before the loop runs, so it stays set, with
  the memory the session has by then, when the loop raises.
\<close>

definition ensure_chat :: "env \<Rightarrow> state \<Rightarrow> string option \<times> turn list \<times> state" where
  "ensure_chat e st =
     (case gemini_chat st of
        Some session \<Rightarrow> (None, session, st)
      | None \<Rightarrow>
          (case replay e (chat_history st) [] st of
             (raised, session, st') \<Rightarrow> (raised, session, st'\<lparr>gemini_chat := Some session\<rparr>)))"

subsection \<open>The adapters\<close>

text \<open>
  \<^verbatim>\<open>get_gemini_response\<close>. The coroutine awaits nothing: once it runs, it runs to its
  \<^verbatim>\<open>return\<close>. Line 104 reads the text of the response after the session has taken the
  response.
\<close>

definition get_gemini_response :: "env \<Rightarrow> string \<Rightarrow> state \<Rightarrow> string \<times> state" where
  "get_gemini_response e message st =
     (if \<not> gemini_model st then (''Gemini model not available'', st)
      else
        (case ensure_chat e st of
           (Some err, session, st1) \<Rightarrow> (''Gemini Error: '' @ err, st1)
         | (None, session, st1) \<Rightarrow>
             (case send_message e session message st1 of
                (Inl err, session', st2) \<Rightarrow>
                  (''Gemini Error: '' @ err, st2\<lparr>gemini_chat := Some session'\<rparr>)
              | (Inr reply, session', st2) \<Rightarrow>
                  (case reply of
                     Text t \<Rightarrow> t
                   | NoText err \<Rightarrow> ''Gemini Error: '' @ err,
                   st2\<lparr>gemini_chat := Some session'\<rparr>))))"

text \<open>
  A coroutine that has been started: it has returned, or it waits for the outcome of
  its one request and will return the given text when the outcome arrives.
\<close>

datatype task = Done string | Awaiting request string

text \<open>
  \<^verbatim>\<open>get_openai_response\<close> up to its \<^verbatim>\<open>await\<close> (lines 109 to 118): without client it
  returns at once, otherwise it builds the messages from the history as it is now and
  makes the request. What it will return is fixed by the outcome of the request: the
  text of the response, or the text of the \<^verbatim>\<open>except\<close> branch.
\<close>

definition openai_start ::
  "env \<Rightarrow> client option \<Rightarrow> string \<Rightarrow> string \<Rightarrow> state \<Rightarrow> task \<times> state" where
  "openai_start e cl model message st =
     (case cl of
        None \<Rightarrow> (Done (model @ '' client not available''), st)
      | Some c \<Rightarrow>
          (let messages = [system_turn ''You are a helpful AI assistant.'']
                            @ chat_history st @ [user_turn message];
               req = ChatCompletion c model messages
           in (Awaiting req
                 (case respond e (net_log st) req of
                    Inl err \<Rightarrow> model @ '' Error: '' @ err
                  | Inr (Text t) \<Rightarrow> t
                  | Inr (NoText err) \<Rightarrow> model @ '' Error: '' @ err),
               request_made req st)))"

text \<open>The rest of the coroutine, run when the outcome of its request has arrived.\<close>

definition resume :: "task \<Rightarrow> state \<Rightarrow> string \<times> state" where
  "resume t st =
     (case t of
        Done r \<Rightarrow> (r, st)
      | Awaiting req r \<Rightarrow> (r, request_done req st))"

text \<open>\<^verbatim>\<open>get_openai_response\<close> awaited on its own.\<close>

definition get_openai_response ::
  "env \<Rightarrow> client option \<Rightarrow> string \<Rightarrow> string \<Rightarrow> state \<Rightarrow> string \<times> state" where
  "get_openai_response e cl model message st =
     (case openai_start e cl model message st of (t, st1) \<Rightarrow> resume t st1)"

subsection \<open>Synthesis\<close>

text \<open>\<^verbatim>\<open>str(KeyError(k))\<close> for a string key without quotes in it: the key between single quotes.\<close>

definition key_error :: "string \<Rightarrow> string" where
  "key_error k = [CHR 0x27] @ k @ [CHR 0x27]"

definition synthesis_prompt :: "string \<Rightarrow> string \<Rightarrow> string \<Rightarrow> string \<Rightarrow> string \<Rightarrow> string" where
  "synthesis_prompt user_message gemini deepseek qwen o1 =
     ''As an AI synthesizer, analyze these AI responses to the user's message and create a comprehensive, accurate response that combines the best insights from all sources.\<newline>\<newline>User's Message: ''
     @ user_message
     @ ''\<newline>\<newline>Responses from different AI models:\<newline>Model 1: '' @ gemini
     @ ''\<newline>Model 2: '' @ deepseek
     @ ''\<newline>Model 3: '' @ qwen
     @ ''\<newline>Model 4: '' @ o1
     @ ''\<newline>\<newline>Create a well-structured response that:\<newline>1. Combines the unique insights from each model\<newline>2. Resolves any contradictions between the responses\<newline>3. Provides the most accurate and helpful information\<newline>4. Maintains a natural, conversational tone\<newline>\<newline>''"

text \<open>
  \<open>responses\<close> is the dict of the four answers, in insertion order. A missing key, like
  every other exception inside the \<^verbatim>\<open>try\<close>, ends in the text \<^verbatim>\<open>Synthesis Error: ...\<close>.
  The one request is awaited while nothing else is running.
\<close>

definition synthesize_responses ::
  "env \<Rightarrow> string \<Rightarrow> (string \<times> string) list \<Rightarrow> state \<Rightarrow> string \<times> state" where
  "synthesize_responses e user_message responses st =
     (case openai_client st of
        None \<Rightarrow> (''Cannot synthesize: OpenAI O1 not available'', st)
      | Some c \<Rightarrow>
     (case map_of responses ''gemini'' of
        None \<Rightarrow> (''Synthesis Error: '' @ key_error ''gemini'', st)
      | Some gemini \<Rightarrow>
     (case map_of responses ''deepseek'' of
        None \<Rightarrow> (''Synthesis Error: '' @ key_error ''deepseek'', st)
      | Some deepseek \<Rightarrow>
     (case map_of responses ''qwen'' of
        None \<Rightarrow> (''Synthesis Error: '' @ key_error ''qwen'', st)
      | Some qwen \<Rightarrow>
     (case map_of responses ''o1'' of
        None \<Rightarrow> (''Synthesis Error: '' @ key_error ''o1'', st)
      | Some o1 \<Rightarrow>
     (case MODELS ''o1'' of
        None \<Rightarrow> (''Synthesis Error: '' @ key_error ''o1'', st)
      | Some model \<Rightarrow>
          (let messages = [system_turn ''You are an expert AI response synthesizer.'',
                           user_turn (synthesis_prompt user_message gemini deepseek qwen o1)];
               req = ChatCompletion c model messages
           in (case respond e (net_log st) req of
                 Inl err \<Rightarrow> ''Synthesis Error: '' @ err
               | Inr (Text t) \<Rightarrow> t
               | Inr (NoText err) \<Rightarrow> ''Synthesis Error: '' @ err,
               request_done req (request_made req st)))))))))"

subsection \<open>Fan-out and join\<close>

text \<open>
  How a call of a coroutine ends: it returns a value, it raises an exception (with its
  \<^verbatim>\<open>str(e)\<close>), or it awaits something that never completes.
\<close>

datatype 'a outcome = Returned 'a | Raised string | Pending

text \<open>
  \<^verbatim>\<open>asyncio.gather(*tasks)\<close> on tasks that have all been started. Each task has a slot
  for its value; the slot of a task that has returned is filled. \<open>order\<close> lists the
  indices of the tasks in the order in which the outcomes of their requests arrive: an
  arrival lets the task run to its \<^verbatim>\<open>return\<close>, which fills its slot (an index that is
  not a task's, or that comes again, does nothing). The awaited call resumes, with the
  slots' values in the order of \<^verbatim>\<open>tasks\<close>, once no slot is empty, and never (\<open>None\<close>)
  when the request of a task stays without outcome.
\<close>

definition slot :: "task \<Rightarrow> string option" where
  "slot t = (case t of Done r \<Rightarrow> Some r | Awaiting req r \<Rightarrow> None)"

fun deliver :: "task list \<Rightarrow> nat list \<Rightarrow> string option list \<Rightarrow> state \<Rightarrow> string option list \<times> state" where
  "deliver tasks [] slots st = (slots, st)"
| "deliver tasks (i # order) slots st =
     (if i < length tasks \<and> slots ! i = None then
        (case resume (tasks ! i) st of
           (r, st') \<Rightarrow> deliver tasks order (slots[i := Some r]) st')
      else deliver tasks order slots st)"

definition gather :: "nat list \<Rightarrow> task list \<Rightarrow> state \<Rightarrow> string list option \<times> state" where
  "gather order tasks st =
     (case deliver tasks order (map slot tasks) st of
        (slots, st') \<Rightarrow> (those slots, st'))"

text \<open>
  The first half of \<^verbatim>\<open>process_message\<close> (lines 165 to 180): the four tasks, the join,
  and the dict \<^verbatim>\<open>responses\<close>. The arguments of the four calls are evaluated when the
  tasks are created, before any of them runs. The tasks start, in the order of their
  creation, when \<^verbatim>\<open>process_message\<close> awaits the join. \<^verbatim>\<open>get_gemini_response\<close> awaits
  nothing, so it is over, with all its requests, before the second task starts; each
  \<^verbatim>\<open>get_openai_response\<close> runs up to its request, and the three requests are in flight
  together.
\<close>

definition dispatch ::
  "env \<Rightarrow> nat list \<Rightarrow> string \<Rightarrow> state \<Rightarrow> (string \<times> string) list outcome \<times> state" where
  "dispatch e order message st =
     (case MODELS ''deepseek'' of None \<Rightarrow> (Raised (key_error ''deepseek''), st) | Some deepseek \<Rightarrow>
     (case MODELS ''qwen'' of None \<Rightarrow> (Raised (key_error ''qwen''), st) | Some qwen \<Rightarrow>
     (case MODELS ''o1'' of None \<Rightarrow> (Raised (key_error ''o1''), st) | Some o1 \<Rightarrow>
     (case get_gemini_response e message st of (r0, st0) \<Rightarrow>
     (case openai_start e (openrouter_client st) deepseek message st0 of (t1, st1) \<Rightarrow>
     (case openai_start e (openrouter_client st) qwen message st1 of (t2, st2) \<Rightarrow>
     (case openai_start e (openai_client st) o1 message st2 of (t3, st3) \<Rightarrow>
     (case gather order [Done r0, t1, t2, t3] st3 of
        (None, st4) \<Rightarrow> (Pending, st4)
      | (Some results, st4) \<Rightarrow>
          (Returned [(''gemini'', results ! 0), (''deepseek'', results ! 1),
                     (''qwen'', results ! 2), (''o1'', results ! 3)], st4)))))))))"

subsection \<open>One exchange\<close>

text \<open>The dict \<^verbatim>\<open>{f"Model {i}": resp for i, resp in enumerate(responses.values(), 1)}\<close>.\<close>

definition model_responses :: "(string \<times> string) list \<Rightarrow> json" where
  "model_responses responses =
     JObj (map (\<lambda>(i, resp). (''Model '' @ str_nat i, JStr resp))
             (enumerate 1 (map snd responses)))"

definition log_entry :: "string \<Rightarrow> string \<Rightarrow> (string \<times> string) list \<Rightarrow> string \<Rightarrow> json" where
  "log_entry timestamp message responses final_response =
     JObj [(''timestamp'', JStr timestamp),
           (''user_message'', JStr message),
           (''model_responses'', model_responses responses),
           (''final_response'', JStr final_response)]"

fun py_type_name :: "json \<Rightarrow> string" where
  "py_type_name JNull = ''NoneType''"
| "py_type_name (JBool b) = ''bool''"
| "py_type_name (JNum n) = ''int''"
| "py_type_name (JFloat literal) = ''float''"
| "py_type_name (JStr s) = ''str''"
| "py_type_name (JArr xs) = ''list''"
| "py_type_name (JObj kvs) = ''dict''"

text \<open>\<^verbatim>\<open>str(e)\<close> of the AttributeError a missing method raises.\<close>

definition attribute_error :: "json \<Rightarrow> string \<Rightarrow> string" where
  "attribute_error v name =
     [CHR 0x27] @ py_type_name v @ [CHR 0x27] @ '' object has no attribute ''
       @ [CHR 0x27] @ name @ [CHR 0x27]"

text \<open>
  What one call of \<^verbatim>\<open>process_message\<close> takes from outside the program: the order in
  which the outcomes of the requests of its tasks arrive, and
  \<^verbatim>\<open>datetime.now().isoformat()\<close>.
\<close>

record inputs =
  completion :: "nat list"
  now :: string

text \<open>
  \<^verbatim>\<open>process_message\<close>. The history is appended to before the log is read, and
  \<^verbatim>\<open>chat_log.append\<close> is a method of lists only: on any other value that the file holds
  it raises, after the history has grown.
\<close>

definition process_message :: "env \<Rightarrow> inputs \<Rightarrow> string \<Rightarrow> state \<Rightarrow> string outcome \<times> state" where
  "process_message e inp message st =
     (case dispatch e (completion inp) message st of
        (Raised err, st1) \<Rightarrow> (Raised err, st1)
      | (Pending, st1) \<Rightarrow> (Pending, st1)
      | (Returned responses, st1) \<Rightarrow>
          (case synthesize_responses e message responses st1 of
             (final_response, st2) \<Rightarrow>
               (let st3 = st2\<lparr>chat_history :=
                            chat_history st2 @ [user_turn message, assistant_turn final_response]\<rparr>
                in (case load_chat_log st3 of
                      JArr entries \<Rightarrow>
                        (Returned final_response,
                         save_chat_log
                           (JArr (entries @ [log_entry (now inp) message responses final_response]))
                           st3)
                    | other \<Rightarrow> (Raised (attribute_error other ''append''), st3)))))"

text \<open>The \<^verbatim>\<open>--clear\<close> branch of \<^verbatim>\<open>main\<close>, the same statements in both programs.\<close>

definition clear_chat :: "state \<Rightarrow> state" where
  "clear_chat st = st\<lparr>chat_history := [], gemini_chat := None\<rparr>"

text \<open>
  The calls of \<^verbatim>\<open>process_message\<close> that \<^verbatim>\<open>main\<close> makes for a list of messages, one after
  the other; an exception is caught by \<^verbatim>\<open>main\<close> and the loop goes on, a call that never
  returns ends the run (\<open>None\<close>).
\<close>

fun exchanges :: "env \<Rightarrow> (inputs \<times> string) list \<Rightarrow> state \<Rightarrow> state option" where
  "exchanges e [] st = Some st"
| "exchanges e ((inp, message) # rest) st =
     (case process_message e inp message st of
        (Pending, st') \<Rightarrow> None
      | (Returned text, st') \<Rightarrow> exchanges e rest st'
      | (Raised err, st') \<Rightarrow> exchanges e rest st')"

section \<open>multi-chat.py\<close>

definition MODELS_multi :: "int \<rightharpoonup> string \<times> string" where
  "MODELS_multi = [1 \<mapsto> (''Gemini'', ''gemini-2.0-flash-thinking-exp-01-21''),
                   2 \<mapsto> (''OpenAI'', ''o1''),
                   3 \<mapsto> (''DeepSeek'', ''deepseek/deepseek-r1''),
                   4 \<mapsto> (''Qwen'', ''qwen/qwq-32b-preview'')]"

text \<open>\<^verbatim>\<open>send_openai_message\<close>: one request, awaited while nothing else is running.\<close>

definition send_openai_message ::
  "env \<Rightarrow> client \<Rightarrow> string \<Rightarrow> string \<Rightarrow> state \<Rightarrow> string \<times> state" where
  "send_openai_message e c model message st =
     (let messages = [system_turn ''You are a helpful AI assistant.'']
                       @ chat_history st @ [user_turn message];
          req = ChatCompletion c model messages
      in (case respond e (net_log st) req of
            Inl err \<Rightarrow> ''Error: '' @ err
          | Inr (Text t) \<Rightarrow> t
          | Inr (NoText err) \<Rightarrow> ''Error: '' @ err,
          request_done req (request_made req st)))"

text \<open>The two \<^verbatim>\<open>chat_history.append\<close> statements of the branches for OpenAI and OpenRouter.\<close>

definition append_exchange :: "string \<Rightarrow> string \<Rightarrow> state \<Rightarrow> state" where
  "append_exchange message response st =
     st\<lparr>chat_history := chat_history st @ [user_turn message, assistant_turn response]\<rparr>"

text \<open>
  \<^verbatim>\<open>chat_with_model\<close>. \<^verbatim>\<open>MODELS[model_choice]\<close> raises KeyError for a choice that is not
  a key, and the \<^verbatim>\<open>except\<close> of the function turns every exception into the text
  \<^verbatim>\<open>Error: ...\<close>; \<^verbatim>\<open>str(e)\<close> of the KeyError of an integer key is the integer. The
  conditions \<^verbatim>\<open>model_choice == 2 and openai_client\<close> and
  \<^verbatim>\<open>model_choice in [3, 4] and openrouter_client\<close> are written as the client that the
  branch uses when the condition holds, \<open>None\<close> when it does not. In the Gemini branch
  line 121 appends the user turn as soon as \<^verbatim>\<open>send_message\<close> has returned, and line 122
  reads the text of the response only then: a response without text leaves the user
  turn alone in the history. The last branch appends nothing.
\<close>

definition chat_with_model :: "env \<Rightarrow> int \<Rightarrow> string \<Rightarrow> state \<Rightarrow> string \<times> state" where
  "chat_with_model e model_choice message st =
     (case MODELS_multi model_choice of
        None \<Rightarrow> (''Error: '' @ str_int model_choice, st)
      | Some (model_name, model_id) \<Rightarrow>
          if model_choice = 1 \<and> gemini_model st then
            (case ensure_chat e st of
               (Some err, session, st1) \<Rightarrow> (''Error: '' @ err, st1)
             | (None, session, st1) \<Rightarrow>
                 (case send_message e session message st1 of
                    (Inl err, session', st2) \<Rightarrow>
                      (''Error: '' @ err, st2\<lparr>gemini_chat := Some session'\<rparr>)
                  | (Inr reply, session', st2) \<Rightarrow>
                      (let st3 = st2\<lparr>gemini_chat := Some session',
                                     chat_history := chat_history st2 @ [user_turn message]\<rparr>
                       in (case reply of
                             NoText err \<Rightarrow> (''Error: '' @ err, st3)
                           | Text t \<Rightarrow>
                               (t, st3\<lparr>chat_history := chat_history st3 @ [assistant_turn t]\<rparr>)))))
          else
            (case (if model_choice = 2 then openai_client st else None) of
               Some c \<Rightarrow>
                 (case send_openai_message e c model_id message st of
                    (response, st1) \<Rightarrow> (response, append_exchange message response st1))
             | None \<Rightarrow>
                 (case (if model_choice \<in> {3, 4} then openrouter_client st else None) of
                    Some c \<Rightarrow>
                      (case send_openai_message e c model_id message st of
                         (response, st1) \<Rightarrow> (response, append_exchange message response st1))
                  | None \<Rightarrow> (''Selected model is not available.'', st))))"

text \<open>The calls of \<^verbatim>\<open>chat_with_model\<close> that \<^verbatim>\<open>main\<close> makes, one after the other.\<close>

fun chats :: "env \<Rightarrow> (int \<times> string) list \<Rightarrow> state \<Rightarrow> state" where
  "chats e [] st = st"
| "chats e ((model_choice, message) # rest) st =
     chats e rest (snd (chat_with_model e model_choice message st))"

section \<open>Predicates of the statements\<close>

text \<open>The backend that \<^verbatim>\<open>chat_with_model\<close> selects has a client: the conditions of its three branches.\<close>

definition available :: "int \<Rightarrow> state \<Rightarrow> bool" where
  "available model_choice st =
     (model_choice = 1 \<and> gemini_model st
      \<or> model_choice = 2 \<and> openai_client st \<noteq> None
      \<or> model_choice \<in> {3, 4} \<and> openrouter_client st \<noteq> None)"

text \<open>
  The Gemini call meets an exception: a request of it raises (seeding or the message
  itself), or the response to the message has no text to read.
\<close>

definition gemini_raises :: "env \<Rightarrow> string \<Rightarrow> state \<Rightarrow> bool" where
  "gemini_raises e message st =
     (case ensure_chat e st of
        (Some err, session, st1) \<Rightarrow> True
      | (None, session, st1) \<Rightarrow>
          (case send_message e session message st1 of
             (Inl err, session', st2) \<Rightarrow> True
           | (Inr (NoText err), session', st2) \<Rightarrow> True
           | (Inr (Text t), session', st2) \<Rightarrow> False))"

text \<open>
  A run of \<^verbatim>\<open>chat_with_model\<close> calls in which every call reaches a backend that has a
  client and, for Gemini, meets no exception.
\<close>

fun chats_succeed :: "env \<Rightarrow> (int \<times> string) list \<Rightarrow> state \<Rightarrow> bool" where
  "chats_succeed e [] st = True"
| "chats_succeed e ((model_choice, message) # rest) st =
     (available model_choice st
      \<and> \<not> (model_choice = 1 \<and> gemini_raises e message st)
      \<and> chats_succeed e rest (snd (chat_with_model e model_choice message st)))"

text \<open>The request \<^verbatim>\<open>get_openai_response\<close> and \<^verbatim>\<open>send_openai_message\<close> build: the system
  preamble, the whole history, then the new message.\<close>

definition chat_request :: "client \<Rightarrow> string \<Rightarrow> turn list \<Rightarrow> string \<Rightarrow> request" where
  "chat_request c model history message =
     ChatCompletion c model
       ([system_turn ''You are a helpful AI assistant.''] @ history @ [user_turn message])"

text \<open>The text a request carries: the message sent to a chat session, or nothing.\<close>

fun sent_text :: "request \<Rightarrow> string" where
  "sent_text (SendMessage session text) = text"
| "sent_text (ChatCompletion c model messages) = []"

text \<open>A request shows a text to its backend: as the message, or as a turn it carries.\<close>

fun carries :: "request \<Rightarrow> string \<Rightarrow> bool" where
  "carries (SendMessage session text) t = (text = t \<or> t \<in> content ` set session)"
| "carries (ChatCompletion c model messages) t = (t \<in> content ` set messages)"

text \<open>The entry of a backend in the dict that the fan-out returns.\<close>

fun entry :: "string \<Rightarrow> (string \<times> string) list outcome \<Rightarrow> string option" where
  "entry k (Returned responses) = map_of responses k"
| "entry k (Raised err) = None"
| "entry k Pending = None"

text \<open>What a task returns, and the request it waits for.\<close>

fun result :: "task \<Rightarrow> string" where
  "result (Done r) = r"
| "result (Awaiting req r) = r"

fun awaited :: "task \<Rightarrow> request option" where
  "awaited (Done r) = None"
| "awaited (Awaiting req r) = Some req"

text \<open>
  Every request of the fan-out of \<^verbatim>\<open>process_message\<close> gets its outcome: the tasks 1 and 2
  make a request when there is an OpenRouter client, task 3 when there is an OpenAI
  client, and task 0 waits for nothing.
\<close>

definition joins :: "nat list \<Rightarrow> state \<Rightarrow> bool" where
  "joins order st =
     ((openrouter_client st \<noteq> None \<longrightarrow> 1 \<in> set order \<and> 2 \<in> set order)
      \<and> (openai_client st \<noteq> None \<longrightarrow> 3 \<in> set order))"


text \<open>
  The values the log holds: strings, \<^verbatim>\<open>None\<close> and booleans, lists of such values and
  dicts of them. A Python dict has no key twice.
\<close>

fun plain :: "json \<Rightarrow> bool" where
  "plain JNull = True"
| "plain (JBool b) = True"
| "plain (JNum n) = False"
| "plain (JFloat literal) = False"
| "plain (JStr s) = True"
| "plain (JArr vs) = (\<forall>v \<in> set vs. plain v)"
| "plain (JObj kvs) = (distinct (map fst kvs) \<and> (\<forall>kv \<in> set kvs. plain (snd kv)))"

section \<open>A concrete environment\<close>

text \<open>
  Backends with canned answers: Gemini echoes the message, fails on \<^verbatim>\<open>boom\<close> and
  answers \<^verbatim>\<open>hush\<close> without a text; DeepSeek answers, Qwen times out, o1 answers the
  question and the synthesis prompt.
\<close>

definition demo_respond :: "request list \<Rightarrow> request \<Rightarrow> string + reply" where
  "demo_respond log r =
     (case r of
        SendMessage session text \<Rightarrow>
          if text = ''boom'' then Inl ''quota exceeded''
          else if text = ''hush'' then Inr (NoText ''no text part'')
          else Inr (Text (''echo '' @ text))
      | ChatCompletion c model messages \<Rightarrow>
          if model = ''deepseek/deepseek-r1'' then Inr (Text ''four'')
          else if model = ''qwen/qwq-32b-preview'' then Inl ''timeout''
          else if map content (take 1 messages) = [''You are an expert AI response synthesizer.'']
          then Inr (Text ''The answer is 4.'')
          else Inr (Text ''4''))"

definition demo_env :: env where
  "demo_env = \<lparr>respond = demo_respond\<rparr>"

text \<open>Every client was created, nothing has been said, no log file yet.\<close>

definition demo_state :: state where
  "demo_state =
     \<lparr>gemini_model = True, openai_client = Some OpenAI, openrouter_client = Some OpenRouter,
      chat_history = [], gemini_chat = None, net_log = [], events = [],
      chat_log_file = None, fs_writable = True\<rparr>"

text \<open>No client could be created.\<close>

definition demo_offline :: state where
  "demo_offline =
     \<lparr>gemini_model = False, openai_client = None, openrouter_client = None,
      chat_history = [], gemini_chat = None, net_log = [], events = [],
      chat_log_file = None, fs_writable = True\<rparr>"

text \<open>Only the OpenRouter client is missing; one exchange has taken place.\<close>

definition demo_mixed :: state where
  "demo_mixed =
     \<lparr>gemini_model = True, openai_client = Some OpenAI, openrouter_client = None,
      chat_history = [user_turn ''hello'', assistant_turn ''hi there''],
      gemini_chat = None, net_log = [], events = [],
      chat_log_file = None, fs_writable = True\<rparr>"

definition demo_inputs :: inputs where
  "demo_inputs = \<lparr>completion = [3, 1, 0, 2], now = ''2025-02-01T10:00:00''\<rparr>"

text \<open>A log of one entry.\<close>

definition demo_entries :: "json list" where
  "demo_entries =
     [log_entry ''2025-02-01T10:00:00'' ''What is 2+2?''
        [(''gemini'', ''4''), (''deepseek'', ''four''),
         (''qwen'', ''qwen/qwq-32b-preview Error: timeout''), (''o1'', ''4'')]
        ''The answer is \"4\".'']"


text \<open>Every client exists; one failed exchange is in the history.\<close>

definition demo_kept :: state where
  "demo_kept =
     \<lparr>gemini_model = True, openai_client = Some OpenAI, openrouter_client = Some OpenRouter,
      chat_history = [user_turn ''boom'',
                      assistant_turn ''Cannot synthesize: OpenAI O1 not available''],
      gemini_chat = Some [], net_log = [SendMessage [] ''boom''],
      events = [Started (SendMessage [] ''boom''), Finished (SendMessage [] ''boom'')],
      chat_log_file = None, fs_writable = True\<rparr>"


text \<open>Three user turns wait to be replayed to a new session; the second one fails.\<close>

definition demo_seed :: state where
  "demo_seed =
     \<lparr>gemini_model = True, openai_client = Some OpenAI, openrouter_client = Some OpenRouter,
      chat_history = [user_turn ''one'', assistant_turn ''1'',
                      user_turn ''boom'', assistant_turn ''2'',
                      user_turn ''three'', assistant_turn ''3''],
      gemini_chat = None, net_log = [], events = [],
      chat_log_file = None, fs_writable = True\<rparr>"

section \<open>Auxiliary facts\<close>

subsection \<open>The join\<close>

lemma resume_result [simp]: "fst (resume t st) = result t"
  by (cases t) (simp_all add: resume_def)

lemma resume_frame:
  "net_log (snd (resume t st)) = net_log st"
  "chat_history (snd (resume t st)) = chat_history st"
  "gemini_model (snd (resume t st)) = gemini_model st"
  "openai_client (snd (resume t st)) = openai_client st"
  "openrouter_client (snd (resume t st)) = openrouter_client st"
  "chat_log_file (snd (resume t st)) = chat_log_file st"
  "fs_writable (snd (resume t st)) = fs_writable st"
  "gemini_chat (snd (resume t st)) = gemini_chat st"
  by (cases t; simp add: resume_def request_done_def)+

lemma deliver_length: "length (fst (deliver ts order slots st)) = length slots"
  by (induction order arbitrary: slots st) (auto split: prod.splits)

lemma deliver_nth:
  "i < length slots \<Longrightarrow> length slots = length ts \<Longrightarrow>
   fst (deliver ts order slots st) ! i =
     (if slots ! i = None \<and> i \<in> set order then Some (result (ts ! i)) else slots ! i)"
proof (induction order arbitrary: slots st)
  case Nil
  then show ?case by simp
next
  case (Cons j order)
  show ?case
  proof (cases "j < length ts \<and> slots ! j = None")
    case True
    obtain r st' where rs: "resume (ts ! j) st = (r, st')" by (cases "resume (ts ! j) st") auto
    then have r: "r = result (ts ! j)" using resume_result[of "ts ! j" st] by simp
    from Cons.prems have "fst (deliver ts order (slots[j := Some r]) st') ! i =
        (if slots[j := Some r] ! i = None \<and> i \<in> set order then Some (result (ts ! i))
         else slots[j := Some r] ! i)"
      by (intro Cons.IH) simp_all
    with True Cons.prems rs r show ?thesis by (auto simp: nth_list_update)
  next
    case False
    with Cons.prems Cons.IH[of slots st] show ?thesis by auto
  qed
qed

lemma deliver_frame:
  "net_log (snd (deliver ts order slots st)) = net_log st"
  "chat_history (snd (deliver ts order slots st)) = chat_history st"
  "gemini_model (snd (deliver ts order slots st)) = gemini_model st"
  "openai_client (snd (deliver ts order slots st)) = openai_client st"
  "openrouter_client (snd (deliver ts order slots st)) = openrouter_client st"
  "chat_log_file (snd (deliver ts order slots st)) = chat_log_file st"
  "fs_writable (snd (deliver ts order slots st)) = fs_writable st"
  "gemini_chat (snd (deliver ts order slots st)) = gemini_chat st"
  by (induction order arbitrary: slots st; simp split: prod.splits; metis resume_frame snd_conv)+

lemma those_map_Some: "those (map Some xs) = Some xs"
  by (induction xs) auto

lemma those_None: "None \<in> set xs \<Longrightarrow> those xs = None"
  by (induction xs) (auto split: option.splits)

lemma slot_None: "slot t = None \<longleftrightarrow> awaited t \<noteq> None"
  by (cases t) (simp_all add: slot_def)

lemma slot_result: "slot t \<noteq> None \<Longrightarrow> slot t = Some (result t)"
  by (cases t) (simp_all add: slot_def)

lemma gather_eq:
  "fst (gather order ts st) =
     (if \<forall>i<length ts. awaited (ts ! i) \<noteq> None \<longrightarrow> i \<in> set order
      then Some (map result ts) else None)"
proof (cases "\<forall>i<length ts. awaited (ts ! i) \<noteq> None \<longrightarrow> i \<in> set order")
  case True
  have "fst (deliver ts order (map slot ts) st) = map Some (map result ts)"
  proof (rule nth_equalityI)
    show "length (fst (deliver ts order (map slot ts) st)) = length (map Some (map result ts))"
      by (simp add: deliver_length)
  next
    fix i assume "i < length (fst (deliver ts order (map slot ts) st))"
    then have i: "i < length ts" by (simp add: deliver_length)
    with True have "slot (ts ! i) = None \<longrightarrow> i \<in> set order" by (simp add: slot_None)
    with i show "fst (deliver ts order (map slot ts) st) ! i = map Some (map result ts) ! i"
      using slot_result[of "ts ! i"] by (auto simp: deliver_nth)
  qed
  then have "those (fst (deliver ts order (map slot ts) st)) = Some (map result ts)"
    by (simp only: those_map_Some)
  with True show ?thesis by (simp add: gather_def case_prod_beta)
next
  case False
  then obtain i where i: "i < length ts" "awaited (ts ! i) \<noteq> None" "i \<notin> set order" by auto
  then have "fst (deliver ts order (map slot ts) st) ! i = None"
    by (simp add: deliver_nth slot_None)
  moreover from i have "i < length (fst (deliver ts order (map slot ts) st))"
    by (simp add: deliver_length)
  ultimately have "None \<in> set (fst (deliver ts order (map slot ts) st))"
    by (metis nth_mem)
  with False show ?thesis by (simp add: gather_def those_None case_prod_beta)
qed

lemma gather_frame:
  "net_log (snd (gather order ts st)) = net_log st"
  "chat_history (snd (gather order ts st)) = chat_history st"
  "gemini_model (snd (gather order ts st)) = gemini_model st"
  "openai_client (snd (gather order ts st)) = openai_client st"
  "openrouter_client (snd (gather order ts st)) = openrouter_client st"
  "chat_log_file (snd (gather order ts st)) = chat_log_file st"
  "fs_writable (snd (gather order ts st)) = fs_writable st"
  "gemini_chat (snd (gather order ts st)) = gemini_chat st"
  by (simp_all add: gather_def case_prod_beta deliver_frame)


subsection \<open>What the calls leave unchanged\<close>

lemma MODELS_simps:
  "MODELS ''deepseek'' = Some ''deepseek/deepseek-r1''"
  "MODELS ''qwen'' = Some ''qwen/qwq-32b-preview''"
  "MODELS ''o1'' = Some ''o1''"
  "MODELS ''gemini'' = Some ''gemini-2.0-flash-thinking-exp-01-21''"
  by (simp_all add: MODELS_def)

lemma request_made_simps:
  "net_log (request_made r st) = net_log st @ [r]"
  "events (request_made r st) = events st @ [Started r]"
  "chat_history (request_made r st) = chat_history st"
  "gemini_model (request_made r st) = gemini_model st"
  "openai_client (request_made r st) = openai_client st"
  "openrouter_client (request_made r st) = openrouter_client st"
  "chat_log_file (request_made r st) = chat_log_file st"
  "fs_writable (request_made r st) = fs_writable st"
  "gemini_chat (request_made r st) = gemini_chat st"
  by (simp_all add: request_made_def)

lemma request_done_simps:
  "net_log (request_done r st) = net_log st"
  "events (request_done r st) = events st @ [Finished r]"
  "chat_history (request_done r st) = chat_history st"
  "gemini_model (request_done r st) = gemini_model st"
  "openai_client (request_done r st) = openai_client st"
  "openrouter_client (request_done r st) = openrouter_client st"
  "chat_log_file (request_done r st) = chat_log_file st"
  "fs_writable (request_done r st) = fs_writable st"
  "gemini_chat (request_done r st) = gemini_chat st"
  by (simp_all add: request_done_def)

lemma send_message_eq:
  "send_message e session text st =
     (respond e (net_log st) (SendMessage session text),
      (case respond e (net_log st) (SendMessage session text) of
         Inl err \<Rightarrow> session
       | Inr reply \<Rightarrow> session @ [user_turn text, \<lparr>role = ''model'', content = reply_text reply\<rparr>]),
      request_done (SendMessage session text) (request_made (SendMessage session text) st))"
  by (simp add: send_message_def Let_def split: sum.splits)

lemma send_message_frame:
  assumes "send_message e session text st = (r, session', st')"
  shows "net_log st' = net_log st @ [SendMessage session text]"
    "chat_history st' = chat_history st" "gemini_model st' = gemini_model st"
    "openai_client st' = openai_client st" "openrouter_client st' = openrouter_client st"
    "chat_log_file st' = chat_log_file st" "fs_writable st' = fs_writable st"
    "gemini_chat st' = gemini_chat st"
  using assms by (auto simp: send_message_eq request_made_simps request_done_simps)

lemma replay_frame:
  "replay e msgs session st = (r, session', st') \<Longrightarrow>
     chat_history st' = chat_history st \<and> gemini_model st' = gemini_model st
     \<and> openai_client st' = openai_client st \<and> openrouter_client st' = openrouter_client st
     \<and> chat_log_file st' = chat_log_file st \<and> fs_writable st' = fs_writable st
     \<and> gemini_chat st' = gemini_chat st \<and> (\<exists>xs. net_log st' = net_log st @ xs)"
proof (induction msgs arbitrary: session st)
  case Nil
  then show ?case by simp
next
  case (Cons msg msgs)
  show ?case
  proof (cases "role msg = ''user''")
    case False
    with Cons show ?thesis by simp
  next
    case True
    obtain o1 s1 st1 where sm: "send_message e session (content msg) st = (o1, s1, st1)"
      by (cases "send_message e session (content msg) st") auto
    note f = send_message_frame[OF sm]
    show ?thesis
    proof (cases o1)
      case (Inl err)
      with Cons.prems True sm f show ?thesis by auto
    next
      case (Inr reply)
      with Cons.prems True sm have "replay e msgs s1 st1 = (r, session', st')" by simp
      from Cons.IH[OF this] f show ?thesis by auto
    qed
  qed
qed

lemma ensure_chat_frame:
  assumes "ensure_chat e st = (r, session, st1)"
  shows "chat_history st1 = chat_history st" "gemini_model st1 = gemini_model st"
    "openai_client st1 = openai_client st" "openrouter_client st1 = openrouter_client st"
    "chat_log_file st1 = chat_log_file st" "fs_writable st1 = fs_writable st"
    "gemini_chat st1 = Some session" "\<exists>xs. net_log st1 = net_log st @ xs"
  using assms
  by (auto simp: ensure_chat_def split: option.splits prod.splits dest: replay_frame)

lemma get_gemini_response_frame:
  "chat_history (snd (get_gemini_response e m st)) = chat_history st"
  "gemini_model (snd (get_gemini_response e m st)) = gemini_model st"
  "openai_client (snd (get_gemini_response e m st)) = openai_client st"
  "openrouter_client (snd (get_gemini_response e m st)) = openrouter_client st"
  "chat_log_file (snd (get_gemini_response e m st)) = chat_log_file st"
  "fs_writable (snd (get_gemini_response e m st)) = fs_writable st"
  by (auto simp: get_gemini_response_def send_message_eq request_made_simps request_done_simps
      split: option.splits prod.splits sum.splits dest: ensure_chat_frame)

lemma openai_start_None:
  "openai_start e None model m st = (Done (model @ '' client not available''), st)"
  by (simp add: openai_start_def)

lemma openai_start_Some:
  "openai_start e (Some c) model m st =
     (Awaiting (chat_request c model (chat_history st) m)
        (case respond e (net_log st) (chat_request c model (chat_history st) m) of
           Inl err \<Rightarrow> model @ '' Error: '' @ err
         | Inr (Text t) \<Rightarrow> t
         | Inr (NoText err) \<Rightarrow> model @ '' Error: '' @ err),
      request_made (chat_request c model (chat_history st) m) st)"
  by (simp add: openai_start_def chat_request_def Let_def)

lemma openai_start_frame:
  "chat_history (snd (openai_start e cl model m st)) = chat_history st"
  "gemini_model (snd (openai_start e cl model m st)) = gemini_model st"
  "openai_client (snd (openai_start e cl model m st)) = openai_client st"
  "openrouter_client (snd (openai_start e cl model m st)) = openrouter_client st"
  "chat_log_file (snd (openai_start e cl model m st)) = chat_log_file st"
  "fs_writable (snd (openai_start e cl model m st)) = fs_writable st"
  "gemini_chat (snd (openai_start e cl model m st)) = gemini_chat st"
  by (cases cl; simp add: openai_start_None openai_start_Some request_made_simps)+

lemma openai_start_awaited:
  "awaited (fst (openai_start e cl model m st)) \<noteq> None \<longleftrightarrow> cl \<noteq> None"
  by (cases cl) (simp_all add: openai_start_None openai_start_Some)

lemma get_openai_response_None:
  "get_openai_response e None model m st = (model @ '' client not available'', st)"
  by (simp add: get_openai_response_def openai_start_None resume_def)

lemma get_openai_response_Some:
  "get_openai_response e (Some c) model m st =
     (case respond e (net_log st) (chat_request c model (chat_history st) m) of
        Inl err \<Rightarrow> model @ '' Error: '' @ err
      | Inr (Text t) \<Rightarrow> t
      | Inr (NoText err) \<Rightarrow> model @ '' Error: '' @ err,
      request_done (chat_request c model (chat_history st) m)
        (request_made (chat_request c model (chat_history st) m) st))"
  by (simp add: get_openai_response_def openai_start_Some resume_def)

lemma get_openai_response_frame:
  "chat_history (snd (get_openai_response e cl model m st)) = chat_history st"
  "gemini_model (snd (get_openai_response e cl model m st)) = gemini_model st"
  "openai_client (snd (get_openai_response e cl model m st)) = openai_client st"
  "openrouter_client (snd (get_openai_response e cl model m st)) = openrouter_client st"
  "chat_log_file (snd (get_openai_response e cl model m st)) = chat_log_file st"
  "fs_writable (snd (get_openai_response e cl model m st)) = fs_writable st"
  "gemini_chat (snd (get_openai_response e cl model m st)) = gemini_chat st"
  by (cases cl; simp add: get_openai_response_None get_openai_response_Some
      request_made_simps request_done_simps)+

lemma all_less_4: "(\<forall>i<4::nat. P i) \<longleftrightarrow> P 0 \<and> P 1 \<and> P 2 \<and> P 3"
proof
  assume "\<forall>i<4. P i"
  then show "P 0 \<and> P 1 \<and> P 2 \<and> P 3" by simp
next
  assume a: "P 0 \<and> P 1 \<and> P 2 \<and> P 3"
  show "\<forall>i<4. P i"
  proof (intro allI impI)
    fix i :: nat assume "i < 4"
    then have "i = 0 \<or> i = 1 \<or> i = 2 \<or> i = 3" by arith
    with a show "P i" by auto
  qed
qed

lemma gather4:
  "fst (gather order [Done r0, t1, t2, t3] st) =
     (if (awaited t1 \<noteq> None \<longrightarrow> 1 \<in> set order) \<and> (awaited t2 \<noteq> None \<longrightarrow> 2 \<in> set order)
         \<and> (awaited t3 \<noteq> None \<longrightarrow> 3 \<in> set order)
      then Some [r0, result t1, result t2, result t3] else None)"
proof -
  have "length [Done r0, t1, t2, t3] = 4" by simp
  then show ?thesis
    by (simp only: gather_eq all_less_4) simp
qed

text \<open>The tasks of the fan-out and the state in which they have all been started.\<close>

lemma dispatch_eq:
  "dispatch e order m st =
     (case get_gemini_response e m st of (r0, st0) \<Rightarrow>
      case openai_start e (openrouter_client st) ''deepseek/deepseek-r1'' m st0 of (t1, st1) \<Rightarrow>
      case openai_start e (openrouter_client st) ''qwen/qwq-32b-preview'' m st1 of (t2, st2) \<Rightarrow>
      case openai_start e (openai_client st) ''o1'' m st2 of (t3, st3) \<Rightarrow>
        (if joins order st
         then Returned [(''gemini'', r0), (''deepseek'', result t1), (''qwen'', result t2),
                        (''o1'', result t3)]
         else Pending,
         snd (gather order [Done r0, t1, t2, t3] st3)))"
proof -
  obtain r0 st0 where g: "get_gemini_response e m st = (r0, st0)"
    by (cases "get_gemini_response e m st") auto
  obtain t1 st1 where a1: "openai_start e (openrouter_client st) ''deepseek/deepseek-r1'' m st0 = (t1, st1)"
    by (cases "openai_start e (openrouter_client st) ''deepseek/deepseek-r1'' m st0") auto
  obtain t2 st2 where a2: "openai_start e (openrouter_client st) ''qwen/qwq-32b-preview'' m st1 = (t2, st2)"
    by (cases "openai_start e (openrouter_client st) ''qwen/qwq-32b-preview'' m st1") auto
  obtain t3 st3 where a3: "openai_start e (openai_client st) ''o1'' m st2 = (t3, st3)"
    by (cases "openai_start e (openai_client st) ''o1'' m st2") auto
  have w1: "awaited t1 \<noteq> None \<longleftrightarrow> openrouter_client st \<noteq> None"
    using openai_start_awaited[of e "openrouter_client st" "''deepseek/deepseek-r1''" m st0] a1 by simp
  have w2: "awaited t2 \<noteq> None \<longleftrightarrow> openrouter_client st \<noteq> None"
    using openai_start_awaited[of e "openrouter_client st" "''qwen/qwq-32b-preview''" m st1] a2 by simp
  have w3: "awaited t3 \<noteq> None \<longleftrightarrow> openai_client st \<noteq> None"
    using openai_start_awaited[of e "openai_client st" "''o1''" m st2] a3 by simp
  have j: "fst (gather order [Done r0, t1, t2, t3] st3) =
      (if joins order st then Some [r0, result t1, result t2, result t3] else None)"
    unfolding gather4 w1 w2 w3 by (auto simp: joins_def)
  obtain res st4 where ga: "gather order [Done r0, t1, t2, t3] st3 = (res, st4)"
    by (cases "gather order [Done r0, t1, t2, t3] st3") auto
  with j have res: "res = (if joins order st then Some [r0, result t1, result t2, result t3] else None)"
    by simp
  show ?thesis
    by (simp add: dispatch_def MODELS_simps g a1 a2 a3 ga res)
qed

subsection \<open>Synthesis and the exchange\<close>

lemma dispatch_frame:
  "chat_history (snd (dispatch e order m st)) = chat_history st"
  "gemini_model (snd (dispatch e order m st)) = gemini_model st"
  "openai_client (snd (dispatch e order m st)) = openai_client st"
  "openrouter_client (snd (dispatch e order m st)) = openrouter_client st"
  "chat_log_file (snd (dispatch e order m st)) = chat_log_file st"
  "fs_writable (snd (dispatch e order m st)) = fs_writable st"
  by (simp_all add: dispatch_eq case_prod_beta gather_frame openai_start_frame
      get_gemini_response_frame)

lemma dispatch_net_log:
  "net_log (snd (dispatch e order m st)) =
     net_log (snd (openai_start e (openai_client st) ''o1'' m
       (snd (openai_start e (openrouter_client st) ''qwen/qwq-32b-preview'' m
         (snd (openai_start e (openrouter_client st) ''deepseek/deepseek-r1'' m
           (snd (get_gemini_response e m st))))))))"
  by (simp add: dispatch_eq case_prod_beta gather_frame)

lemma dispatch_result:
  "fst (dispatch e order m st) =
     (if joins order st
      then Returned
        [(''gemini'', fst (get_gemini_response e m st)),
         (''deepseek'', result (fst (openai_start e (openrouter_client st) ''deepseek/deepseek-r1'' m
            (snd (get_gemini_response e m st))))),
         (''qwen'', result (fst (openai_start e (openrouter_client st) ''qwen/qwq-32b-preview'' m
            (snd (openai_start e (openrouter_client st) ''deepseek/deepseek-r1'' m
              (snd (get_gemini_response e m st))))))),
         (''o1'', result (fst (openai_start e (openai_client st) ''o1'' m
            (snd (openai_start e (openrouter_client st) ''qwen/qwq-32b-preview'' m
              (snd (openai_start e (openrouter_client st) ''deepseek/deepseek-r1'' m
                (snd (get_gemini_response e m st)))))))))]
      else Pending)"
  by (simp add: dispatch_eq case_prod_beta)

lemmas demo_defs = demo_env_def demo_state_def demo_offline_def demo_mixed_def demo_inputs_def
  demo_respond_def

lemmas call_defs = get_gemini_response_def get_openai_response_def openai_start_def resume_def
  ensure_chat_def send_message_def request_made_def request_done_def
  user_turn_def assistant_turn_def system_turn_def




lemma synthesize_responses_frame:
  "chat_history (snd (synthesize_responses e m rs st)) = chat_history st"
  "gemini_model (snd (synthesize_responses e m rs st)) = gemini_model st"
  "openai_client (snd (synthesize_responses e m rs st)) = openai_client st"
  "openrouter_client (snd (synthesize_responses e m rs st)) = openrouter_client st"
  "chat_log_file (snd (synthesize_responses e m rs st)) = chat_log_file st"
  "fs_writable (snd (synthesize_responses e m rs st)) = fs_writable st"
  "gemini_chat (snd (synthesize_responses e m rs st)) = gemini_chat st"
  by (simp_all add: synthesize_responses_def Let_def request_made_simps request_done_simps
      split: option.splits)

lemma load_chat_log_cong:
  "chat_log_file st' = chat_log_file st \<Longrightarrow> load_chat_log st' = load_chat_log st"
  by (simp add: load_chat_log_def)

lemma save_chat_log_frame:
  "chat_history (save_chat_log v st) = chat_history st"
  "net_log (save_chat_log v st) = net_log st"
  "events (save_chat_log v st) = events st"
  "gemini_chat (save_chat_log v st) = gemini_chat st"
  "gemini_model (save_chat_log v st) = gemini_model st"
  "openai_client (save_chat_log v st) = openai_client st"
  "openrouter_client (save_chat_log v st) = openrouter_client st"
  "fs_writable (save_chat_log v st) = fs_writable st"
  by (simp_all add: save_chat_log_def)

lemma dispatch_returns:
  assumes "joins order st"
  shows "\<exists>r0 r1 r2 r3 st1. dispatch e order m st =
           (Returned [(''gemini'', r0), (''deepseek'', r1), (''qwen'', r2), (''o1'', r3)], st1)"
  using assms by (simp add: dispatch_eq split: prod.splits)

lemma joins_all: "{0, 1, 2, 3} \<subseteq> set order \<Longrightarrow> joins order st"
  by (simp add: joins_def)

lemma process_message_eq:
  assumes "dispatch e (completion inp) m st = (Returned rs, st1)"
    and "synthesize_responses e m rs st1 = (final, st2)"
  shows "process_message e inp m st =
     (case load_chat_log st of
        JArr entries \<Rightarrow>
          (Returned final,
           save_chat_log (JArr (entries @ [log_entry (now inp) m rs final]))
             (st2\<lparr>chat_history := chat_history st @ [user_turn m, assistant_turn final]\<rparr>))
      | other \<Rightarrow>
          (Raised (attribute_error other ''append''),
           st2\<lparr>chat_history := chat_history st @ [user_turn m, assistant_turn final]\<rparr>))"
proof -
  have h: "chat_history st2 = chat_history st"
    using assms dispatch_frame(1)[of e "completion inp" m st]
      synthesize_responses_frame(1)[of e m rs st1] by simp
  have f: "chat_log_file st2 = chat_log_file st"
    using assms dispatch_frame(5)[of e "completion inp" m st]
      synthesize_responses_frame(5)[of e m rs st1] by simp
  have l: "load_chat_log (st2\<lparr>chat_history := chat_history st @ [user_turn m, assistant_turn final]\<rparr>)
      = load_chat_log st"
    by (rule load_chat_log_cong) (simp add: f)
  show ?thesis
    using assms by (simp add: process_message_def Let_def h l split: json.splits)
qed

lemma process_message_pending:
  "\<not> joins (completion inp) st \<Longrightarrow> fst (process_message e inp m st) = Pending"
  by (simp add: process_message_def dispatch_eq case_prod_beta)

subsection \<open>The requests of the calls\<close>

lemma get_gemini_response_log:
  "\<exists>xs. net_log (snd (get_gemini_response e m st)) = net_log st @ xs"
proof (cases "gemini_model st")
  case False
  then show ?thesis by (simp add: get_gemini_response_def)
next
  case True
  obtain r session st1 where ec: "ensure_chat e st = (r, session, st1)"
    by (cases "ensure_chat e st") auto
  from ensure_chat_frame(8)[OF ec] obtain xs where xs: "net_log st1 = net_log st @ xs" ..
  show ?thesis
  proof (cases r)
    case (Some err)
    with True ec xs show ?thesis by (simp add: get_gemini_response_def)
  next
    case None
    with True ec xs show ?thesis
      by (simp add: get_gemini_response_def send_message_eq request_made_simps request_done_simps
          split: sum.splits)
  qed
qed

lemma openai_start_log:
  "\<exists>xs. net_log (snd (openai_start e cl model m st)) = net_log st @ xs"
  by (cases cl) (simp_all add: openai_start_None openai_start_Some request_made_simps)

lemma get_openai_response_log:
  "\<exists>xs. net_log (snd (get_openai_response e cl model m st)) = net_log st @ xs"
  by (cases cl) (simp_all add: get_openai_response_None get_openai_response_Some
      request_made_simps request_done_simps)

lemma MODELS_multi_simps:
  "MODELS_multi 1 = Some (''Gemini'', ''gemini-2.0-flash-thinking-exp-01-21'')"
  "MODELS_multi 2 = Some (''OpenAI'', ''o1'')"
  "MODELS_multi 3 = Some (''DeepSeek'', ''deepseek/deepseek-r1'')"
  "MODELS_multi 4 = Some (''Qwen'', ''qwen/qwq-32b-preview'')"
  by (simp_all add: MODELS_multi_def)

lemma send_openai_message_eq:
  "send_openai_message e c model m st =
     (case respond e (net_log st) (chat_request c model (chat_history st) m) of
        Inl err \<Rightarrow> ''Error: '' @ err
      | Inr (Text t) \<Rightarrow> t
      | Inr (NoText err) \<Rightarrow> ''Error: '' @ err,
      request_done (chat_request c model (chat_history st) m)
        (request_made (chat_request c model (chat_history st) m) st))"
  by (simp add: send_openai_message_def chat_request_def Let_def)


lemma chat_with_model_stateless:
  assumes "model_choice = 2 \<and> openai_client st = Some c
           \<or> model_choice \<in> {3, 4} \<and> openrouter_client st = Some c"
    and "MODELS_multi model_choice = Some (name, model)"
  shows "chat_with_model e model_choice m st =
     (fst (send_openai_message e c model m st),
      append_exchange m (fst (send_openai_message e c model m st))
        (snd (send_openai_message e c model m st)))"
  using assms
  by (auto simp: chat_with_model_def MODELS_multi_simps case_prod_beta split: option.splits)

lemma chat_with_model_gemini:
  assumes "gemini_model st"
  shows "chat_with_model e 1 m st =
     (case ensure_chat e st of
        (Some err, session, st1) \<Rightarrow> (''Error: '' @ err, st1)
      | (None, session, st1) \<Rightarrow>
          (case send_message e session m st1 of
             (Inl err, session', st2) \<Rightarrow>
               (''Error: '' @ err, st2\<lparr>gemini_chat := Some session'\<rparr>)
           | (Inr reply, session', st2) \<Rightarrow>
               (let st3 = st2\<lparr>gemini_chat := Some session',
                              chat_history := chat_history st2 @ [user_turn m]\<rparr>
                in (case reply of
                      NoText err \<Rightarrow> (''Error: '' @ err, st3)
                    | Text t \<Rightarrow>
                        (t, st3\<lparr>chat_history := chat_history st3 @ [assistant_turn t]\<rparr>)))))"
  using assms by (simp add: chat_with_model_def MODELS_multi_simps)

text \<open>The Gemini call when the session is there and seeded.\<close>

lemma get_gemini_response_after:
  assumes "gemini_model st" and "ensure_chat e st = (None, session, st1)"
  shows "fst (get_gemini_response e m st) =
     (case respond e (net_log st1) (SendMessage session m) of
        Inl err \<Rightarrow> ''Gemini Error: '' @ err
      | Inr (Text t) \<Rightarrow> t
      | Inr (NoText err) \<Rightarrow> ''Gemini Error: '' @ err)"
    "net_log (snd (get_gemini_response e m st)) = net_log st1 @ [SendMessage session m]"
    "events (snd (get_gemini_response e m st)) =
       events st1 @ [Started (SendMessage session m), Finished (SendMessage session m)]"
    "gemini_chat (snd (get_gemini_response e m st)) =
       Some (case respond e (net_log st1) (SendMessage session m) of
               Inl err \<Rightarrow> session
             | Inr reply \<Rightarrow>
                 session @ [user_turn m, \<lparr>role = ''model'', content = reply_text reply\<rparr>])"
  using assms
  by (simp_all add: get_gemini_response_def send_message_eq request_made_simps request_done_simps
      split: sum.splits reply.splits)

lemma chat_with_model_gemini_after:
  assumes "gemini_model st" and "ensure_chat e st = (None, session, st1)"
  shows "net_log (snd (chat_with_model e 1 m st)) = net_log st1 @ [SendMessage session m]"
    "gemini_chat (snd (chat_with_model e 1 m st)) \<noteq> None"
    "fst (chat_with_model e 1 m st) =
       (case respond e (net_log st1) (SendMessage session m) of
          Inl err \<Rightarrow> ''Error: '' @ err
        | Inr (Text t) \<Rightarrow> t
        | Inr (NoText err) \<Rightarrow> ''Error: '' @ err)"
    "chat_history (snd (chat_with_model e 1 m st)) =
       (case respond e (net_log st1) (SendMessage session m) of
          Inl err \<Rightarrow> chat_history st
        | Inr (Text t) \<Rightarrow> chat_history st @ [user_turn m, assistant_turn t]
        | Inr (NoText err) \<Rightarrow> chat_history st @ [user_turn m])"
  using assms ensure_chat_frame(1)[OF assms(2)]
  by (simp_all add: chat_with_model_gemini send_message_eq request_made_simps request_done_simps
      Let_def split: sum.splits reply.splits)

lemma gemini_raises_eq:
  "gemini_raises e m st =
     (case ensure_chat e st of
        (Some err, session, st1) \<Rightarrow> True
      | (None, session, st1) \<Rightarrow>
          (case respond e (net_log st1) (SendMessage session m) of
             Inr (Text t) \<Rightarrow> False
           | _ \<Rightarrow> True))"
  by (simp add: gemini_raises_def send_message_eq split: prod.splits option.splits sum.splits reply.splits)

lemma chat_with_model_appends:
  assumes "available model_choice st" and "\<not> (model_choice = 1 \<and> gemini_raises e m st)"
  shows "chat_history (snd (chat_with_model e model_choice m st)) =
     chat_history st @ [user_turn m, assistant_turn (fst (chat_with_model e model_choice m st))]"
proof -
  consider (g) "model_choice = 1" "gemini_model st"
    | (o) c where "model_choice = 2" "openai_client st = Some c"
    | (r) c where "model_choice \<in> {3, 4}" "openrouter_client st = Some c"
    using assms(1) by (auto simp: available_def)
  then show ?thesis
  proof cases
    case g
    with assms(2) have nr: "\<not> gemini_raises e m st" by simp
    obtain r session st1 where ec: "ensure_chat e st = (r, session, st1)"
      by (cases "ensure_chat e st") auto
    from nr ec obtain t where "r = None" "respond e (net_log st1) (SendMessage session m) = Inr (Text t)"
      by (cases r; cases "respond e (net_log st1) (SendMessage session m)")
        (auto simp: gemini_raises_eq split: reply.splits)
    with g ec show ?thesis
      using chat_with_model_gemini_after(3,4)[of st e session st1 m] by simp
  next
    case o
    then show ?thesis
      using chat_with_model_stateless[of model_choice st c "''OpenAI''" "''o1''" e m]
      by (simp add: MODELS_multi_simps append_exchange_def send_openai_message_eq
          request_made_simps request_done_simps)
  next
    case r
    then have "model_choice = 3 \<or> model_choice = 4" by auto
    then show ?thesis
    proof
      assume "model_choice = 3"
      with r show ?thesis
        using chat_with_model_stateless[of model_choice st c "''DeepSeek''" "''deepseek/deepseek-r1''" e m]
        by (simp add: MODELS_multi_simps append_exchange_def send_openai_message_eq
            request_made_simps request_done_simps)
    next
      assume "model_choice = 4"
      with r show ?thesis
        using chat_with_model_stateless[of model_choice st c "''Qwen''" "''qwen/qwq-32b-preview''" e m]
        by (simp add: MODELS_multi_simps append_exchange_def send_openai_message_eq
            request_made_simps request_done_simps)
    qed
  qed
qed

lemma process_message_appends:
  assumes "joins (completion inp) st"
  shows "\<exists>final. chat_history (snd (process_message e inp m st)) =
            chat_history st @ [user_turn m, assistant_turn final]
          \<and> (fst (process_message e inp m st) = Returned final
              \<or> (\<exists>err. fst (process_message e inp m st) = Raised err))
          \<and> ((\<exists>entries. load_chat_log st = JArr entries) \<longrightarrow>
               fst (process_message e inp m st) = Returned final)"
proof -
  from dispatch_returns[OF assms] obtain r0 r1 r2 r3 st1 where
    d: "dispatch e (completion inp) m st =
          (Returned [(''gemini'', r0), (''deepseek'', r1), (''qwen'', r2), (''o1'', r3)], st1)"
    by blast
  obtain final st2 where s: "synthesize_responses e m
      [(''gemini'', r0), (''deepseek'', r1), (''qwen'', r2), (''o1'', r3)] st1 = (final, st2)"
    by (cases "synthesize_responses e m
      [(''gemini'', r0), (''deepseek'', r1), (''qwen'', r2), (''o1'', r3)] st1") auto
  show ?thesis
    by (rule exI[of _ final], cases "load_chat_log st")
      (simp_all add: process_message_eq[OF d s] save_chat_log_frame)
qed

subsection \<open>Seeding and runs of exchanges\<close>

lemma replay_requests:
  "replay e msgs session st = (None, session', st') \<Longrightarrow>
   \<exists>new. net_log st' = net_log st @ new
     \<and> map sent_text new = map content (filter (\<lambda>m. role m = ''user'') msgs)
     \<and> (\<forall>r \<in> set new. \<exists>h t. r = SendMessage h t)"
proof (induction msgs arbitrary: session st)
  case Nil
  then show ?case by simp
next
  case (Cons msg msgs)
  show ?case
  proof (cases "role msg = ''user''")
    case False
    with Cons show ?thesis by simp
  next
    case True
    obtain o1 s1 st1 where sm: "send_message e session (content msg) st = (o1, s1, st1)"
      by (cases "send_message e session (content msg) st") auto
    note l1 = send_message_frame(1)[OF sm]
    show ?thesis
    proof (cases o1)
      case (Inl err)
      with Cons.prems True sm show ?thesis by simp
    next
      case (Inr reply)
      with Cons.prems True sm have "replay e msgs s1 st1 = (None, session', st')" by simp
      from Cons.IH[OF this] obtain new where
        "net_log st' = net_log st1 @ new"
        "map sent_text new = map content (filter (\<lambda>m. role m = ''user'') msgs)"
        "\<forall>r \<in> set new. \<exists>h t. r = SendMessage h t"
        by blast
      with l1 True show ?thesis
        by (intro exI[of _ "SendMessage session (content msg) # new"]) simp
    qed
  qed
qed

lemma ensure_chat_present:
  "gemini_chat st = Some session \<Longrightarrow> ensure_chat e st = (None, session, st)"
  by (simp add: ensure_chat_def)

lemma ensure_chat_idem:
  "ensure_chat e st = (raised, session, st1) \<Longrightarrow> ensure_chat e st1 = (None, session, st1)"
  by (rule ensure_chat_present) (rule ensure_chat_frame(7))

lemma ensure_chat_requests:
  assumes "gemini_chat st = None" and "ensure_chat e st = (None, session, st1)"
  shows "\<exists>new. net_log st1 = net_log st @ new
     \<and> map sent_text new = map content (filter (\<lambda>m. role m = ''user'') (chat_history st))
     \<and> (\<forall>r \<in> set new. \<exists>h t. r = SendMessage h t)"
proof -
  obtain r s st' where rp: "replay e (chat_history st) [] st = (r, s, st')"
    by (cases "replay e (chat_history st) [] st") auto
  with assms have "r = None" "net_log st1 = net_log st'"
    by (auto simp: ensure_chat_def)
  with replay_requests[of e "chat_history st" "[]" st s st'] rp show ?thesis by simp
qed

lemma role_simps [simp]:
  "role (user_turn t) = ''user''" "role (assistant_turn t) = ''assistant''"
  "content (user_turn t) = t" "content (assistant_turn t) = t"
  by (simp_all add: user_turn_def assistant_turn_def)

lemma exchanges_step:
  assumes "joins (completion inp) st"
  shows "exchanges e ((inp, m) # rest) st = exchanges e rest (snd (process_message e inp m st))"
proof -
  from process_message_appends[OF assms, of e m]
  have "(\<exists>final. fst (process_message e inp m st) = Returned final)
      \<or> (\<exists>err. fst (process_message e inp m st) = Raised err)"
    by blast
  then show ?thesis
    by (cases "process_message e inp m st") auto
qed

lemma exchanges_history:
  assumes "\<forall>x \<in> set xs. {0, 1, 2, 3} \<subseteq> set (completion (fst x))"
  shows "\<exists>st'. exchanges e xs st = Some st'
     \<and> map role (chat_history st') =
         map role (chat_history st) @ concat (replicate (length xs) [''user'', ''assistant''])
     \<and> filter (\<lambda>t. role t = ''user'') (chat_history st') =
         filter (\<lambda>t. role t = ''user'') (chat_history st) @ map (\<lambda>x. user_turn (snd x)) xs"
  using assms
proof (induction xs arbitrary: st)
  case Nil
  then show ?case by simp
next
  case (Cons x xs)
  obtain inp m where x: "x = (inp, m)" by (cases x)
  with Cons.prems have "{0, 1, 2, 3} \<subseteq> set (completion inp)" by simp
  then have ord: "joins (completion inp) st" by (rule joins_all)
  let ?st1 = "snd (process_message e inp m st)"
  from process_message_appends[OF ord, of e m] obtain final where
    h: "chat_history ?st1 = chat_history st @ [user_turn m, assistant_turn final]"
    by blast
  from Cons.prems have "\<forall>x \<in> set xs. {0, 1, 2, 3} \<subseteq> set (completion (fst x))" by simp
  from Cons.IH[OF this, of ?st1] obtain st' where
    "exchanges e xs ?st1 = Some st'"
    "map role (chat_history st') =
       map role (chat_history ?st1) @ concat (replicate (length xs) [''user'', ''assistant''])"
    "filter (\<lambda>t. role t = ''user'') (chat_history st') =
       filter (\<lambda>t. role t = ''user'') (chat_history ?st1) @ map (\<lambda>x. user_turn (snd x)) xs"
    by blast
  then show ?case
    by (intro exI[of _ st']) (simp add: x exchanges_step[OF ord] h del: exchanges.simps)
qed

lemma chats_history:
  assumes "chats_succeed e ys st"
  shows "map role (chat_history (chats e ys st)) =
         map role (chat_history st) @ concat (replicate (length ys) [''user'', ''assistant''])
     \<and> filter (\<lambda>t. role t = ''user'') (chat_history (chats e ys st)) =
         filter (\<lambda>t. role t = ''user'') (chat_history st) @ map (\<lambda>y. user_turn (snd y)) ys"
  using assms
proof (induction ys arbitrary: st)
  case Nil
  then show ?case by simp
next
  case (Cons y ys)
  obtain c m where y: "y = (c, m)" by (cases y)
  let ?st1 = "snd (chat_with_model e c m st)"
  from Cons.prems y have a: "available c st" "\<not> (c = 1 \<and> gemini_raises e m st)"
    and rest: "chats_succeed e ys ?st1"
    by simp_all
  have h: "chat_history ?st1 =
      chat_history st @ [user_turn m, assistant_turn (fst (chat_with_model e c m st))]"
    by (rule chat_with_model_appends[OF a])
  from Cons.IH[OF rest] show ?case
    by (simp add: y h)
qed

subsection \<open>The entries of the fan-out\<close>

lemma deliver_filled:
  "None \<notin> set slots \<Longrightarrow> length slots = length ts \<Longrightarrow> deliver ts order slots st = (slots, st)"
proof (induction order)
  case Nil
  then show ?case by simp
next
  case (Cons i order)
  have "\<not> (i < length ts \<and> slots ! i = None)"
    using Cons.prems by (metis nth_mem)
  then have "deliver ts (i # order) slots st = deliver ts order slots st"
    by (simp only: deliver.simps if_False)
  with Cons show ?case by simp
qed

lemma gather_done:
  "gather order [Done a, Done b, Done c, Done d] st = (Some [a, b, c, d], st)"
proof -
  have "None \<notin> set (map slot [Done a, Done b, Done c, Done d])"
    by (simp add: slot_def)
  then have "deliver [Done a, Done b, Done c, Done d] order
      (map slot [Done a, Done b, Done c, Done d]) st = (map slot [Done a, Done b, Done c, Done d], st)"
    by (rule deliver_filled) simp
  then show ?thesis
    by (simp add: gather_def slot_def)
qed

lemma dispatch_all_unavailable:
  assumes "\<not> gemini_model st" "openrouter_client st = None" "openai_client st = None"
  shows "dispatch e order m st =
     (Returned [(''gemini'', ''Gemini model not available''),
                (''deepseek'', ''deepseek/deepseek-r1 client not available''),
                (''qwen'', ''qwen/qwq-32b-preview client not available''),
                (''o1'', ''o1 client not available'')], st)"
  using assms
  by (simp add: dispatch_def MODELS_simps get_gemini_response_def openai_start_None gather_done)

lemma nth_after: "(pre @ r # post) ! length pre = r" "take (length pre) (pre @ r # post) = pre"
  by simp_all

lemma openai_entry:
  assumes "chat_history sa = h" and "net_log sa = l @ pre"
    and "final = net_log (snd (openai_start e (Some c) model m sa)) @ post"
  shows "\<exists>i<length final. length l \<le> i \<and> final ! i = chat_request c model h m
           \<and> result (fst (openai_start e (Some c) model m sa)) =
               (case respond e (take i final) (final ! i) of
                  Inl err \<Rightarrow> model @ '' Error: '' @ err
                | Inr (Text t) \<Rightarrow> t
                | Inr (NoText err) \<Rightarrow> model @ '' Error: '' @ err)"
proof -
  have f: "final = net_log sa @ chat_request c model h m # post"
    using assms by (simp add: openai_start_Some request_made_simps)
  have "length (net_log sa) < length final" by (simp add: f)
  moreover have "length l \<le> length (net_log sa)" using assms by simp
  moreover have "final ! length (net_log sa) = chat_request c model h m" by (simp add: f)
  moreover have "take (length (net_log sa)) final = net_log sa" by (simp add: f)
  ultimately show ?thesis
    using assms(1) by (intro exI[of _ "length (net_log sa)"]) (simp add: openai_start_Some)
qed

subsection \<open>Small texts\<close>


lemma json_loads_bad: "json_loads ''{not json'' = None"
  by code_simp

section \<open>The claims\<close>

text \<open>
  C2. A backend whose client was not created answers with its marker text and makes no
  request: \<^verbatim>\<open>get_gemini_response\<close> and \<^verbatim>\<open>get_openai_response\<close> return the marker and
  leave the state, with the log of requests, as it was. The fan-out over any mix of
  present and absent clients never raises: it returns when every request made gets its
  outcome, and waits otherwise. In the dict it returns, the entry of a backend without
  client is the marker, and nothing at all is requested when no client exists. The entry
  of a backend with a client is what that backend answered to the request the log holds
  for it (for Gemini the new message, sent to the seeded session): the text of its
  reply, or the error text when the request raised or the reply has no text.
\<close>

theorem unavailable_backend_marker:
  "(\<not> gemini_model st \<longrightarrow>
      get_gemini_response e message st = (''Gemini model not available'', st))
   \<and> get_openai_response e None model message st = (model @ '' client not available'', st)
   \<and> (dispatch e order message st = (D, st') \<longrightarrow>
        (\<forall>err. D \<noteq> Raised err)
        \<and> (D = Pending \<longleftrightarrow> \<not> joins order st)
        \<and> (\<not> gemini_model st \<and> openrouter_client st = None \<and> openai_client st = None \<longrightarrow>
              st' = st)
        \<and> (joins order st \<longrightarrow>
             (\<exists>r0 r1 r2 r3.
                D = Returned [(''gemini'', r0), (''deepseek'', r1), (''qwen'', r2), (''o1'', r3)])
             \<and> (\<not> gemini_model st \<longrightarrow> entry ''gemini'' D = Some ''Gemini model not available'')
             \<and> (openrouter_client st = None \<longrightarrow>
                   entry ''deepseek'' D = Some ''deepseek/deepseek-r1 client not available''
                   \<and> entry ''qwen'' D = Some ''qwen/qwq-32b-preview client not available'')
             \<and> (openai_client st = None \<longrightarrow> entry ''o1'' D = Some ''o1 client not available'')
             \<and> (gemini_model st \<and> ensure_chat e st = (None, session, st1) \<longrightarrow>
                   (\<exists>i<length (net_log st'). take i (net_log st') = net_log st1
                      \<and> net_log st' ! i = SendMessage session message
                      \<and> entry ''gemini'' D =
                          Some (case respond e (take i (net_log st')) (net_log st' ! i) of
                                  Inl err \<Rightarrow> ''Gemini Error: '' @ err
                                | Inr (Text t) \<Rightarrow> t
                                | Inr (NoText err) \<Rightarrow> ''Gemini Error: '' @ err)))
             \<and> (openrouter_client st = Some c \<longrightarrow>
                   (\<exists>i<length (net_log st'). length (net_log st) \<le> i
                      \<and> net_log st' ! i = chat_request c ''deepseek/deepseek-r1'' (chat_history st) message
                      \<and> entry ''deepseek'' D =
                          Some (case respond e (take i (net_log st')) (net_log st' ! i) of
                                  Inl err \<Rightarrow> ''deepseek/deepseek-r1 Error: '' @ err
                                | Inr (Text t) \<Rightarrow> t
                                | Inr (NoText err) \<Rightarrow> ''deepseek/deepseek-r1 Error: '' @ err))
                   \<and> (\<exists>i<length (net_log st'). length (net_log st) \<le> i
                      \<and> net_log st' ! i = chat_request c ''qwen/qwq-32b-preview'' (chat_history st) message
                      \<and> entry ''qwen'' D =
                          Some (case respond e (take i (net_log st')) (net_log st' ! i) of
                                  Inl err \<Rightarrow> ''qwen/qwq-32b-preview Error: '' @ err
                                | Inr (Text t) \<Rightarrow> t
                                | Inr (NoText err) \<Rightarrow> ''qwen/qwq-32b-preview Error: '' @ err)))
             \<and> (openai_client st = Some c \<longrightarrow>
                   (\<exists>i<length (net_log st'). length (net_log st) \<le> i
                      \<and> net_log st' ! i = chat_request c ''o1'' (chat_history st) message
                      \<and> entry ''o1'' D =
                          Some (case respond e (take i (net_log st')) (net_log st' ! i) of
                                  Inl err \<Rightarrow> ''o1 Error: '' @ err
                                | Inr (Text t) \<Rightarrow> t
                                | Inr (NoText err) \<Rightarrow> ''o1 Error: '' @ err)))))"
  (is "?A \<and> ?B \<and> (?H \<longrightarrow> ?D)")
proof (rule conjI[OF _ conjI[OF _ impI]])
  show ?A by (simp add: get_gemini_response_def)
next
  show ?B by (rule get_openai_response_None)
next
  assume dd: "dispatch e order message st = (D, st')"
  define t0 where "t0 = get_gemini_response e message st"
  define t1 where "t1 = openai_start e (openrouter_client st) ''deepseek/deepseek-r1'' message (snd t0)"
  define t2 where "t2 = openai_start e (openrouter_client st) ''qwen/qwq-32b-preview'' message (snd t1)"
  define t3 where "t3 = openai_start e (openai_client st) ''o1'' message (snd t2)"
  define rs where "rs = [(''gemini'', fst t0), (''deepseek'', result (fst t1)),
                         (''qwen'', result (fst t2)), (''o1'', result (fst t3))]"
  have D: "D = (if joins order st then Returned rs else Pending)"
    using dd dispatch_result[of e order message st]
    by (simp add: t0_def t1_def t2_def t3_def rs_def)
  have L: "net_log st' = net_log (snd t3)"
    using dd dispatch_net_log[of e order message st]
    by (simp add: t0_def t1_def t2_def t3_def)
  have h0: "chat_history (snd t0) = chat_history st"
    by (simp add: t0_def get_gemini_response_frame)
  have h1: "chat_history (snd t1) = chat_history st"
    by (simp add: t1_def openai_start_frame h0)
  have h2: "chat_history (snd t2) = chat_history st"
    by (simp add: t2_def openai_start_frame h1)
  obtain x0 where l0: "net_log (snd t0) = net_log st @ x0"
    unfolding t0_def using get_gemini_response_log by blast
  obtain x1 where l1: "net_log (snd t1) = net_log (snd t0) @ x1"
    unfolding t1_def using openai_start_log by blast
  obtain x2 where l2: "net_log (snd t2) = net_log (snd t1) @ x2"
    unfolding t2_def using openai_start_log by blast
  obtain x3 where l3: "net_log (snd t3) = net_log (snd t2) @ x3"
    unfolding t3_def using openai_start_log by blast
  have quiet: "\<not> gemini_model st \<and> openrouter_client st = None \<and> openai_client st = None \<longrightarrow>
      st' = st"
    using dd by (auto simp: dispatch_all_unavailable)
  have g: "map_of rs ''gemini'' = Some (fst t0)"
    "map_of rs ''deepseek'' = Some (result (fst t1))"
    "map_of rs ''qwen'' = Some (result (fst t2))"
    "map_of rs ''o1'' = Some (result (fst t3))"
    by (simp_all add: rs_def)
  have m0: "\<not> gemini_model st \<longrightarrow> entry ''gemini'' (Returned rs) = Some ''Gemini model not available''"
    by (simp add: g t0_def get_gemini_response_def)
  have m1: "openrouter_client st = None \<longrightarrow>
      entry ''deepseek'' (Returned rs) = Some ''deepseek/deepseek-r1 client not available''
      \<and> entry ''qwen'' (Returned rs) = Some ''qwen/qwq-32b-preview client not available''"
    by (simp add: g t1_def t2_def openai_start_None)
  have m3: "openai_client st = None \<longrightarrow> entry ''o1'' (Returned rs) = Some ''o1 client not available''"
    by (simp add: g t3_def openai_start_None)
  have r0: "\<exists>i<length (net_log (snd t3)). take i (net_log (snd t3)) = net_log st1
        \<and> net_log (snd t3) ! i = SendMessage session message
        \<and> entry ''gemini'' (Returned rs) =
            Some (case respond e (take i (net_log (snd t3))) (net_log (snd t3) ! i) of
                    Inl err \<Rightarrow> ''Gemini Error: '' @ err
                  | Inr (Text t) \<Rightarrow> t
                  | Inr (NoText err) \<Rightarrow> ''Gemini Error: '' @ err)"
    if gm: "gemini_model st" and ec: "ensure_chat e st = (None, session, st1)"
  proof -
    have f: "net_log (snd t3) = net_log st1 @ SendMessage session message # (x1 @ x2 @ x3)"
      using l1 l2 l3 get_gemini_response_after(2)[OF gm ec, of message] by (simp add: t0_def)
    have "length (net_log st1) < length (net_log (snd t3))" by (simp add: f)
    moreover have "take (length (net_log st1)) (net_log (snd t3)) = net_log st1" by (simp add: f)
    moreover have "net_log (snd t3) ! length (net_log st1) = SendMessage session message"
      by (simp add: f)
    ultimately show ?thesis
      using get_gemini_response_after(1)[OF gm ec, of message]
      by (intro exI[of _ "length (net_log st1)"]) (simp add: g t0_def)
  qed
  have r1: "\<exists>i<length (net_log (snd t3)). length (net_log st) \<le> i
        \<and> net_log (snd t3) ! i = chat_request c ''deepseek/deepseek-r1'' (chat_history st) message
        \<and> entry ''deepseek'' (Returned rs) =
            Some (case respond e (take i (net_log (snd t3))) (net_log (snd t3) ! i) of
                    Inl err \<Rightarrow> ''deepseek/deepseek-r1 Error: '' @ err
                  | Inr (Text t) \<Rightarrow> t
                  | Inr (NoText err) \<Rightarrow> ''deepseek/deepseek-r1 Error: '' @ err)"
    if c: "openrouter_client st = Some c"
  proof -
    have "net_log (snd t3) = net_log (snd (openai_start e (Some c) ''deepseek/deepseek-r1'' message (snd t0))) @ (x2 @ x3)"
      using l2 l3 c by (simp add: t1_def)
    from openai_entry[OF h0 l0 this] show ?thesis
      using c by (simp add: g t1_def cong: sum.case_cong reply.case_cong)
  qed
  have r2: "\<exists>i<length (net_log (snd t3)). length (net_log st) \<le> i
        \<and> net_log (snd t3) ! i = chat_request c ''qwen/qwq-32b-preview'' (chat_history st) message
        \<and> entry ''qwen'' (Returned rs) =
            Some (case respond e (take i (net_log (snd t3))) (net_log (snd t3) ! i) of
                    Inl err \<Rightarrow> ''qwen/qwq-32b-preview Error: '' @ err
                  | Inr (Text t) \<Rightarrow> t
                  | Inr (NoText err) \<Rightarrow> ''qwen/qwq-32b-preview Error: '' @ err)"
    if c: "openrouter_client st = Some c"
  proof -
    have a: "net_log (snd t1) = net_log st @ (x0 @ x1)" using l0 l1 by simp
    have "net_log (snd t3) = net_log (snd (openai_start e (Some c) ''qwen/qwq-32b-preview'' message (snd t1))) @ x3"
      using l3 c by (simp add: t2_def)
    from openai_entry[OF h1 a this] show ?thesis
      using c by (simp add: g t2_def cong: sum.case_cong reply.case_cong)
  qed
  have r3: "\<exists>i<length (net_log (snd t3)). length (net_log st) \<le> i
        \<and> net_log (snd t3) ! i = chat_request c ''o1'' (chat_history st) message
        \<and> entry ''o1'' (Returned rs) =
            Some (case respond e (take i (net_log (snd t3))) (net_log (snd t3) ! i) of
                    Inl err \<Rightarrow> ''o1 Error: '' @ err
                  | Inr (Text t) \<Rightarrow> t
                  | Inr (NoText err) \<Rightarrow> ''o1 Error: '' @ err)"
    if c: "openai_client st = Some c"
  proof -
    have a: "net_log (snd t2) = net_log st @ (x0 @ x1 @ x2)" using l0 l1 l2 by simp
    have "net_log (snd t3) = net_log (snd (openai_start e (Some c) ''o1'' message (snd t2))) @ []"
      using c by (simp add: t3_def)
    from openai_entry[OF h2 a this] show ?thesis
      using c by (simp add: g t3_def cong: sum.case_cong reply.case_cong)
  qed
  show ?D
  proof (intro conjI allI impI)
    show "D \<noteq> Raised err" for err by (simp add: D)
    show "D = Pending \<longleftrightarrow> \<not> joins order st" by (simp add: D)
    show "st' = st"
      if "\<not> gemini_model st \<and> openrouter_client st = None \<and> openai_client st = None"
      using that quiet by blast
  next
    assume j: "joins order st"
    then have DR: "D = Returned rs" by (simp add: D)
    show "\<exists>r0 r1 r2 r3.
        D = Returned [(''gemini'', r0), (''deepseek'', r1), (''qwen'', r2), (''o1'', r3)]"
      unfolding DR rs_def by blast
    show "entry ''gemini'' D = Some ''Gemini model not available''" if "\<not> gemini_model st"
      using that m0 by (simp add: DR)
    show "entry ''deepseek'' D = Some ''deepseek/deepseek-r1 client not available''"
      if "openrouter_client st = None"
      using that m1 by (simp add: DR)
    show "entry ''qwen'' D = Some ''qwen/qwq-32b-preview client not available''"
      if "openrouter_client st = None"
      using that m1 by (simp add: DR)
    show "entry ''o1'' D = Some ''o1 client not available''" if "openai_client st = None"
      using that m3 by (simp add: DR)
    show "\<exists>i<length (net_log st'). take i (net_log st') = net_log st1
            \<and> net_log st' ! i = SendMessage session message
            \<and> entry ''gemini'' D =
                Some (case respond e (take i (net_log st')) (net_log st' ! i) of
                        Inl err \<Rightarrow> ''Gemini Error: '' @ err
                      | Inr (Text t) \<Rightarrow> t
                      | Inr (NoText err) \<Rightarrow> ''Gemini Error: '' @ err)"
      if "gemini_model st \<and> ensure_chat e st = (None, session, st1)"
      using that r0 unfolding DR L by blast
    show "\<exists>i<length (net_log st'). length (net_log st) \<le> i
            \<and> net_log st' ! i = chat_request c ''deepseek/deepseek-r1'' (chat_history st) message
            \<and> entry ''deepseek'' D =
                Some (case respond e (take i (net_log st')) (net_log st' ! i) of
                        Inl err \<Rightarrow> ''deepseek/deepseek-r1 Error: '' @ err
                      | Inr (Text t) \<Rightarrow> t
                      | Inr (NoText err) \<Rightarrow> ''deepseek/deepseek-r1 Error: '' @ err)"
      if "openrouter_client st = Some c"
      using that r1 unfolding DR L by blast
    show "\<exists>i<length (net_log st'). length (net_log st) \<le> i
            \<and> net_log st' ! i = chat_request c ''qwen/qwq-32b-preview'' (chat_history st) message
            \<and> entry ''qwen'' D =
                Some (case respond e (take i (net_log st')) (net_log st' ! i) of
                        Inl err \<Rightarrow> ''qwen/qwq-32b-preview Error: '' @ err
                      | Inr (Text t) \<Rightarrow> t
                      | Inr (NoText err) \<Rightarrow> ''qwen/qwq-32b-preview Error: '' @ err)"
      if "openrouter_client st = Some c"
      using that r2 unfolding DR L by blast
    show "\<exists>i<length (net_log st'). length (net_log st) \<le> i
            \<and> net_log st' ! i = chat_request c ''o1'' (chat_history st) message
            \<and> entry ''o1'' D =
                Some (case respond e (take i (net_log st')) (net_log st' ! i) of
                        Inl err \<Rightarrow> ''o1 Error: '' @ err
                      | Inr (Text t) \<Rightarrow> t
                      | Inr (NoText err) \<Rightarrow> ''o1 Error: '' @ err)"
      if "openai_client st = Some c"
      using that r3 unfolding DR L by blast
  qed
qed

theorem unavailable_backend_marker_witness:
  "\<not> gemini_model demo_offline
   \<and> get_gemini_response demo_env ''What is 2+2?'' demo_offline =
       (''Gemini model not available'', demo_offline)
   \<and> snd (dispatch demo_env [] ''What is 2+2?'' demo_offline) = demo_offline
   \<and> gemini_model demo_mixed
   \<and> openrouter_client demo_mixed = None
   \<and> openai_client demo_mixed = Some OpenAI
   \<and> joins [3] demo_mixed
   \<and> fst (ensure_chat demo_env demo_mixed) = None
   \<and> entry ''gemini'' (fst (dispatch demo_env [3] ''What is 2+2?'' demo_mixed)) =
       Some ''echo What is 2+2?''
   \<and> entry ''deepseek'' (fst (dispatch demo_env [3] ''What is 2+2?'' demo_mixed)) =
       Some ''deepseek/deepseek-r1 client not available''
   \<and> entry ''qwen'' (fst (dispatch demo_env [3] ''What is 2+2?'' demo_mixed)) =
       Some ''qwen/qwq-32b-preview client not available''
   \<and> entry ''o1'' (fst (dispatch demo_env [3] ''What is 2+2?'' demo_mixed)) = Some ''4''
   \<and> fst (dispatch demo_env [1, 2] ''What is 2+2?'' demo_mixed) = Pending"
proof -
  let ?m = "''What is 2+2?''"
  let ?D = "fst (dispatch demo_env [3] ?m demo_mixed)"
  let ?S = "snd (dispatch demo_env [3] ?m demo_mixed)"
  let ?session = "fst (snd (ensure_chat demo_env demo_mixed))"
  let ?st1 = "snd (snd (ensure_chat demo_env demo_mixed))"
  have g: "\<not> gemini_model demo_offline" "openrouter_client demo_offline = None"
    "openai_client demo_offline = None"
    by (simp_all add: demo_offline_def)
  have gm: "gemini_model demo_mixed" and r: "openrouter_client demo_mixed = None"
    and a: "openai_client demo_mixed = Some OpenAI"
    by (simp_all add: demo_mixed_def)
  have j: "joins [3] demo_mixed" and nj: "\<not> joins [1, 2] demo_mixed"
    by (simp_all add: joins_def demo_mixed_def)
  have ec0: "fst (ensure_chat demo_env demo_mixed) = None"
    by (simp add: ensure_chat_def send_message_eq demo_defs user_turn_def assistant_turn_def)
  then have ec: "ensure_chat demo_env demo_mixed = (None, ?session, ?st1)"
    by (metis prod.collapse)
  have m: "get_gemini_response demo_env ?m demo_offline =
      (''Gemini model not available'', demo_offline)"
    using g unavailable_backend_marker
      [where st = demo_offline and e = demo_env and message = ?m]
    by blast
  have q: "snd (dispatch demo_env [] ?m demo_offline) = demo_offline"
    using g unavailable_backend_marker
      [where st = demo_offline and e = demo_env and message = ?m and order = "[]"
         and D = "fst (dispatch demo_env [] ?m demo_offline)"
         and st' = "snd (dispatch demo_env [] ?m demo_offline)"]
    by simp
  have p: "fst (dispatch demo_env [1, 2] ?m demo_mixed) = Pending"
    using nj unavailable_backend_marker
      [where st = demo_mixed and e = demo_env and message = ?m and order = "[1, 2]"
         and D = "fst (dispatch demo_env [1, 2] ?m demo_mixed)"
         and st' = "snd (dispatch demo_env [1, 2] ?m demo_mixed)"]
    by simp
  note T = unavailable_backend_marker
      [where st = demo_mixed and e = demo_env and message = ?m and order = "[3]"
         and D = ?D and st' = ?S and session = ?session and ?st1.0 = ?st1 and c = OpenAI,
       THEN conjunct2, THEN conjunct2, THEN mp, OF prod.collapse[symmetric],
       THEN conjunct2, THEN conjunct2, THEN conjunct2, THEN mp, OF j]
  from T r have e1: "entry ''deepseek'' ?D = Some ''deepseek/deepseek-r1 client not available''"
    and e2: "entry ''qwen'' ?D = Some ''qwen/qwq-32b-preview client not available''"
    by simp_all
  from T gm ec obtain i where
    "net_log ?S ! i = SendMessage ?session ?m"
    "entry ''gemini'' ?D =
       Some (case respond demo_env (take i (net_log ?S)) (net_log ?S ! i) of
               Inl err \<Rightarrow> ''Gemini Error: '' @ err
             | Inr (Text t) \<Rightarrow> t
             | Inr (NoText err) \<Rightarrow> ''Gemini Error: '' @ err)"
    by blast
  then have e0: "entry ''gemini'' ?D = Some ''echo What is 2+2?''"
    by (simp add: demo_env_def demo_respond_def)
  from T a obtain k where
    "net_log ?S ! k = chat_request OpenAI ''o1'' (chat_history demo_mixed) ?m"
    "entry ''o1'' ?D =
       Some (case respond demo_env (take k (net_log ?S)) (net_log ?S ! k) of
               Inl err \<Rightarrow> ''o1 Error: '' @ err
             | Inr (Text t) \<Rightarrow> t
             | Inr (NoText err) \<Rightarrow> ''o1 Error: '' @ err)"
    by blast
  then have e3: "entry ''o1'' ?D = Some ''4''"
    by (simp add: demo_env_def demo_respond_def chat_request_def system_turn_def)
  from g(1) m q gm r a j ec0 e0 e1 e2 e3 p show ?thesis by (intro conjI)
qed







text \<open>
  C5. The \<^verbatim>\<open>--clear\<close> command, from any state, empties the history and removes the Gemini
  chat session, and leaves the three clients as they are. The next Gemini call then
  creates a session from the empty history without replaying anything: the only request
  it makes is the new message, sent to a session with an empty memory.
\<close>

theorem clear_resets_history_and_session:
  "chat_history (clear_chat st) = []
   \<and> gemini_chat (clear_chat st) = None
   \<and> gemini_model (clear_chat st) = gemini_model st
   \<and> openai_client (clear_chat st) = openai_client st
   \<and> openrouter_client (clear_chat st) = openrouter_client st
   \<and> ensure_chat e (clear_chat st) = (None, [], (clear_chat st)\<lparr>gemini_chat := Some []\<rparr>)
   \<and> (gemini_model st \<longrightarrow>
        net_log (snd (get_gemini_response e message (clear_chat st))) =
          net_log st @ [SendMessage [] message]
        \<and> net_log (snd (chat_with_model e 1 message (clear_chat st))) =
          net_log st @ [SendMessage [] message])"
proof -
  have ec: "ensure_chat e (clear_chat st) = (None, [], (clear_chat st)\<lparr>gemini_chat := Some []\<rparr>)"
    by (simp add: ensure_chat_def clear_chat_def)
  have "net_log (snd (get_gemini_response e message (clear_chat st))) =
          net_log st @ [SendMessage [] message]"
    and "net_log (snd (chat_with_model e 1 message (clear_chat st))) =
          net_log st @ [SendMessage [] message]" if "gemini_model st"
  proof -
    from that have g: "gemini_model (clear_chat st)" by (simp add: clear_chat_def)
    show "net_log (snd (get_gemini_response e message (clear_chat st))) =
          net_log st @ [SendMessage [] message]"
      by (simp add: get_gemini_response_after(2)[OF g ec]) (simp add: clear_chat_def)
    show "net_log (snd (chat_with_model e 1 message (clear_chat st))) =
          net_log st @ [SendMessage [] message]"
      by (simp add: chat_with_model_gemini_after(1)[OF g ec]) (simp add: clear_chat_def)
  qed
  with ec show ?thesis by (simp add: clear_chat_def)
qed

theorem clear_resets_history_and_session_witness:
  "gemini_model demo_mixed
   \<and> chat_history demo_mixed = [user_turn ''hello'', assistant_turn ''hi there'']
   \<and> chat_history (clear_chat demo_mixed) = []
   \<and> net_log (snd (get_gemini_response demo_env ''again'' (clear_chat demo_mixed))) =
       [SendMessage [] ''again'']
   \<and> net_log (snd (get_gemini_response demo_env ''again'' demo_mixed)) =
       [SendMessage [] ''hello'',
        SendMessage [user_turn ''hello'', \<lparr>role = ''model'', content = ''echo hello''\<rparr>] ''again'']"
proof -
  have g: "gemini_model demo_mixed" and n: "net_log demo_mixed = []"
    and h: "chat_history demo_mixed = [user_turn ''hello'', assistant_turn ''hi there'']"
    by (simp_all add: demo_mixed_def)
  from clear_resets_history_and_session[of demo_mixed demo_env "''again''"] g n
  have a: "chat_history (clear_chat demo_mixed) = []"
    and b: "net_log (snd (get_gemini_response demo_env ''again'' (clear_chat demo_mixed))) =
       [SendMessage [] ''again'']"
    by simp_all
  have c: "net_log (snd (get_gemini_response demo_env ''again'' demo_mixed)) =
       [SendMessage [] ''hello'',
        SendMessage [user_turn ''hello'', \<lparr>role = ''model'', content = ''echo hello''\<rparr>] ''again'']"
    by (simp add: call_defs demo_defs Let_def)
  from g h a b c show ?thesis by (intro conjI)
qed

text \<open>
  C7. Starting from an empty history, after k exchanges the history has 2k turns whose
  roles are user, assistant, user, assistant, ..., the user turns being the k messages in
  order. In frankenthought-chat.py this holds for every run of k exchanges whose tasks
  complete; in multi-chat.py for every run of k calls that each reach a backend with a
  client and, for Gemini, meet no exception.
\<close>

theorem history_alternates:
  "(chat_history st = [] \<and> (\<forall>x \<in> set xs. {0, 1, 2, 3} \<subseteq> set (completion (fst x))) \<longrightarrow>
      (\<exists>st'. exchanges e xs st = Some st'
         \<and> length (chat_history st') = 2 * length xs
         \<and> map role (chat_history st') = concat (replicate (length xs) [''user'', ''assistant''])
         \<and> filter (\<lambda>t. role t = ''user'') (chat_history st') = map (\<lambda>x. user_turn (snd x)) xs))
   \<and> (chat_history st = [] \<and> chats_succeed e ys st \<longrightarrow>
        length (chat_history (chats e ys st)) = 2 * length ys
        \<and> map role (chat_history (chats e ys st)) =
            concat (replicate (length ys) [''user'', ''assistant''])
        \<and> filter (\<lambda>t. role t = ''user'') (chat_history (chats e ys st)) =
            map (\<lambda>y. user_turn (snd y)) ys)"
proof (intro conjI impI)
  have len: "length (concat (replicate k [''user'', ''assistant''])) = 2 * k" for k
    by (induction k) simp_all
  {
    assume a: "chat_history st = [] \<and> (\<forall>x \<in> set xs. {0, 1, 2, 3} \<subseteq> set (completion (fst x)))"
    then have "\<forall>x \<in> set xs. {0, 1, 2, 3} \<subseteq> set (completion (fst x))" ..
    from exchanges_history[OF this, of e st] a obtain st' where
      s: "exchanges e xs st = Some st'"
      and r: "map role (chat_history st') = concat (replicate (length xs) [''user'', ''assistant''])"
      and u: "filter (\<lambda>t. role t = ''user'') (chat_history st') = map (\<lambda>x. user_turn (snd x)) xs"
      by auto
    from r have "length (map role (chat_history st')) = 2 * length xs"
      by (simp only: len)
    then have "length (chat_history st') = 2 * length xs" by simp
    with s r u show "\<exists>st'. exchanges e xs st = Some st'
         \<and> length (chat_history st') = 2 * length xs
         \<and> map role (chat_history st') = concat (replicate (length xs) [''user'', ''assistant''])
         \<and> filter (\<lambda>t. role t = ''user'') (chat_history st') = map (\<lambda>x. user_turn (snd x)) xs"
      by blast
  }
  {
    assume a: "chat_history st = [] \<and> chats_succeed e ys st"
    then have "chats_succeed e ys st" ..
    from chats_history[OF this] a
    have r: "map role (chat_history (chats e ys st)) =
            concat (replicate (length ys) [''user'', ''assistant''])"
      and u: "filter (\<lambda>t. role t = ''user'') (chat_history (chats e ys st)) =
            map (\<lambda>y. user_turn (snd y)) ys"
      by simp_all
    from r have "length (map role (chat_history (chats e ys st))) = 2 * length ys"
      by (simp only: len)
    then show "length (chat_history (chats e ys st)) = 2 * length ys" by simp
    from r show "map role (chat_history (chats e ys st)) =
            concat (replicate (length ys) [''user'', ''assistant''])" .
    from u show "filter (\<lambda>t. role t = ''user'') (chat_history (chats e ys st)) =
            map (\<lambda>y. user_turn (snd y)) ys" .
  }
qed

theorem history_alternates_witness:
  "chat_history demo_state = []
   \<and> {0, 1, 2, 3} \<subseteq> set (completion demo_inputs)
   \<and> (\<exists>st'. exchanges demo_env
               [(demo_inputs, ''What is 2+2?''), (demo_inputs, ''boom'')] demo_state = Some st'
         \<and> length (chat_history st') = 4
         \<and> map role (chat_history st') = [''user'', ''assistant'', ''user'', ''assistant''])
   \<and> chats_succeed demo_env [(2, ''one''), (1, ''two'')] demo_state
   \<and> length (chat_history (chats demo_env [(2, ''one''), (1, ''two'')] demo_state)) = 4
   \<and> map role (chat_history (chats demo_env [(2, ''one''), (1, ''two'')] demo_state)) =
       [''user'', ''assistant'', ''user'', ''assistant'']"
proof -
  have h: "chat_history demo_state = []" by (simp add: demo_state_def)
  have ord: "{0, 1, 2, 3} \<subseteq> set (completion demo_inputs)" by (simp add: demo_inputs_def)
  have two: "concat (replicate (length [a, b]) [''user'', ''assistant'']) =
      [''user'', ''assistant'', ''user'', ''assistant'']" for a b :: 'a
    by (simp add: numeral_2_eq_2)
  have one: "chat_with_model demo_env 2 ''one'' demo_state =
      (''4'', demo_state\<lparr>chat_history := [user_turn ''one'', assistant_turn ''4''],
                 net_log := [chat_request OpenAI ''o1'' [] ''one''],
                 events := [Started (chat_request OpenAI ''o1'' [] ''one''),
                            Finished (chat_request OpenAI ''o1'' [] ''one'')]\<rparr>)"
    by (simp add: chat_with_model_def MODELS_multi_simps send_openai_message_eq
        append_exchange_def chat_request_def system_turn_def user_turn_def demo_defs
        request_made_def request_done_def)
  have ok: "chats_succeed demo_env [(2, ''one''), (1, ''two'')] demo_state"
    by (simp add: one available_def)
      (simp add: gemini_raises_eq ensure_chat_def send_message_eq demo_defs
        request_made_def request_done_def user_turn_def assistant_turn_def)
  note T = history_alternates
    [where st = demo_state and e = demo_env
       and xs = "[(demo_inputs, ''What is 2+2?''), (demo_inputs, ''boom'')]"
       and ys = "[(2, ''one''), (1, ''two'')]", unfolded two]
  from T h ord have a: "\<exists>st'. exchanges demo_env
               [(demo_inputs, ''What is 2+2?''), (demo_inputs, ''boom'')] demo_state = Some st'
         \<and> length (chat_history st') = 4
         \<and> map role (chat_history st') = [''user'', ''assistant'', ''user'', ''assistant'']"
    by auto
  from T h ok have b: "length (chat_history (chats demo_env [(2, ''one''), (1, ''two'')] demo_state)) = 4"
    and c: "map role (chat_history (chats demo_env [(2, ''one''), (1, ''two'')] demo_state)) =
       [''user'', ''assistant'', ''user'', ''assistant'']"
    by simp_all
  from h ord a ok b c show ?thesis by (intro conjI)
qed

text \<open>
  C8, as stated, fails: the texts have no colon after the model, and those of
  multi-chat.py do not name the model at all.
\<close>

theorem failure_text_counterexample:
  "fst (get_openai_response demo_env (Some OpenRouter) ''qwen/qwq-32b-preview'' ''hi'' demo_state) =
     ''qwen/qwq-32b-preview Error: timeout''
   \<and> fst (get_openai_response demo_env (Some OpenRouter) ''qwen/qwq-32b-preview'' ''hi'' demo_state) \<noteq>
     ''qwen/qwq-32b-preview: Error: timeout''
   \<and> fst (get_gemini_response demo_env ''boom'' demo_state) = ''Gemini Error: quota exceeded''
   \<and> fst (send_openai_message demo_env OpenRouter ''qwen/qwq-32b-preview'' ''hi'' demo_state) =
     ''Error: timeout''"
  by (simp add: call_defs send_openai_message_def demo_defs Let_def)

text \<open>
  C8, amended. A request that raises inside a backend call never leaves the call as an
  exception: the call returns a text that ends in the exception's message. In
  frankenthought-chat.py the text is the model identifier, \<^verbatim>\<open> Error: \<close> and the message
  for a stateless backend, and \<^verbatim>\<open>Gemini Error: \<close> and the message for Gemini (whether the
  new message or a replayed turn raised); in multi-chat.py it is \<^verbatim>\<open>Error: \<close> and the
  message.
\<close>

theorem failure_becomes_inline_text:
  "(respond e (net_log st) (chat_request c model (chat_history st) message) = Inl err \<longrightarrow>
      fst (get_openai_response e (Some c) model message st) = model @ '' Error: '' @ err
      \<and> fst (send_openai_message e c model message st) = ''Error: '' @ err)
   \<and> (gemini_model st \<and> ensure_chat e st = (Some err, session, st1) \<longrightarrow>
        fst (get_gemini_response e message st) = ''Gemini Error: '' @ err
        \<and> fst (chat_with_model e 1 message st) = ''Error: '' @ err)
   \<and> (gemini_model st \<and> ensure_chat e st = (None, session, st1)
        \<and> respond e (net_log st1) (SendMessage session message) = Inl err \<longrightarrow>
        fst (get_gemini_response e message st) = ''Gemini Error: '' @ err
        \<and> fst (chat_with_model e 1 message st) = ''Error: '' @ err)"
  by (simp add: get_openai_response_Some send_openai_message_eq get_gemini_response_def
      chat_with_model_gemini send_message_eq)

theorem failure_becomes_inline_text_witness:
  "respond demo_env (net_log demo_state)
      (chat_request OpenRouter ''qwen/qwq-32b-preview'' (chat_history demo_state) ''hi'') =
     Inl ''timeout''
   \<and> fst (get_openai_response demo_env (Some OpenRouter) ''qwen/qwq-32b-preview'' ''hi'' demo_state) =
       ''qwen/qwq-32b-preview Error: timeout''
   \<and> fst (send_openai_message demo_env OpenRouter ''qwen/qwq-32b-preview'' ''hi'' demo_state) =
       ''Error: timeout''
   \<and> gemini_model demo_state
   \<and> ensure_chat demo_env demo_state = (None, [], demo_state\<lparr>gemini_chat := Some []\<rparr>)
   \<and> respond demo_env (net_log (demo_state\<lparr>gemini_chat := Some []\<rparr>)) (SendMessage [] ''boom'') =
       Inl ''quota exceeded''
   \<and> fst (get_gemini_response demo_env ''boom'' demo_state) = ''Gemini Error: quota exceeded''
   \<and> fst (chat_with_model demo_env 1 ''boom'' demo_state) = ''Error: quota exceeded''
   \<and> ensure_chat demo_env (demo_state\<lparr>chat_history := [user_turn ''boom'']\<rparr>) =
       (Some ''quota exceeded'', [],
        demo_state\<lparr>chat_history := [user_turn ''boom''], gemini_chat := Some [],
                   net_log := [SendMessage [] ''boom''],
                   events := [Started (SendMessage [] ''boom''), Finished (SendMessage [] ''boom'')]\<rparr>)
   \<and> fst (get_gemini_response demo_env ''hi'' (demo_state\<lparr>chat_history := [user_turn ''boom'']\<rparr>)) =
       ''Gemini Error: quota exceeded''"
proof -
  let ?qwen = "''qwen/qwq-32b-preview''"
  let ?st0 = "demo_state\<lparr>chat_history := [user_turn ''boom'']\<rparr>"
  let ?st1 = "demo_state\<lparr>chat_history := [user_turn ''boom''], gemini_chat := Some [],
                   net_log := [SendMessage [] ''boom''],
                   events := [Started (SendMessage [] ''boom''), Finished (SendMessage [] ''boom'')]\<rparr>"
  have r: "respond demo_env (net_log demo_state)
      (chat_request OpenRouter ?qwen (chat_history demo_state) ''hi'') = Inl ''timeout''"
    by (simp add: demo_env_def demo_respond_def chat_request_def)
  have g: "gemini_model demo_state" "gemini_model ?st0" by (simp_all add: demo_state_def)
  have ec: "ensure_chat demo_env demo_state = (None, [], demo_state\<lparr>gemini_chat := Some []\<rparr>)"
    by (simp add: ensure_chat_def demo_state_def)
  have b: "respond demo_env (net_log (demo_state\<lparr>gemini_chat := Some []\<rparr>)) (SendMessage [] ''boom'') =
       Inl ''quota exceeded''"
    by (simp add: demo_env_def demo_respond_def)
  have ec2: "ensure_chat demo_env ?st0 = (Some ''quota exceeded'', [], ?st1)"
    by (simp add: ensure_chat_def send_message_eq demo_defs user_turn_def
        request_made_def request_done_def)
  note T = failure_becomes_inline_text[where e = demo_env]
  from T[where st = demo_state and c = OpenRouter and model = ?qwen and message = "''hi''"
      and err = "''timeout''"] r
  have a1: "fst (get_openai_response demo_env (Some OpenRouter) ?qwen ''hi'' demo_state) =
       ''qwen/qwq-32b-preview Error: timeout''"
    and a2: "fst (send_openai_message demo_env OpenRouter ?qwen ''hi'' demo_state) = ''Error: timeout''"
    by simp_all
  from T[where st = demo_state and session = "[]" and ?st1.0 = "demo_state\<lparr>gemini_chat := Some []\<rparr>"
      and message = "''boom''" and err = "''quota exceeded''"] g ec b
  have a3: "fst (get_gemini_response demo_env ''boom'' demo_state) = ''Gemini Error: quota exceeded''"
    and a4: "fst (chat_with_model demo_env 1 ''boom'' demo_state) = ''Error: quota exceeded''"
    by simp_all
  from T[where st = ?st0 and session = "[]" and ?st1.0 = ?st1
      and message = "''hi''" and err = "''quota exceeded''"] g ec2
  have a5: "fst (get_gemini_response demo_env ''hi'' ?st0) = ''Gemini Error: quota exceeded''"
    by simp
  from r a1 a2 g(1) ec b a3 a4 ec2 a5 show ?thesis by (intro conjI)
qed

end
